theory Spec2Isabelle
  imports Main "HOL-Library.Word"
begin

section \<open>The client side of a NETCONF session (session\_client.c)\<close>

text \<open>
  A shallow embedding of the message pump (\<open>get_msg\<close>, \<open>nc_recv_reply\<close>), the reply
  parser (\<open>parse_rpc_error\<close>, \<open>parse_reply\<close>), the schema context loader
  (\<open>ctx_check_and_load_model\<close>, \<open>ctx_check_and_load_ietf_netconf\<close>,
  \<open>nc_ctx_check_and_fill\<close>) and the get-schema callback (\<open>libyang_module_clb\<close>) of
  \<^verbatim>\<open>src/session_client.c\<close>.

  The C functions mutate a \<^verbatim>\<open>struct nc_session\<close>; here every function takes the session
  and returns the updated one. Undefined behaviour of the C program (a NULL pointer handed
  to \<^verbatim>\<open>strtoul\<close> or dereferenced, an uninitialised pointer read) is a value of type
  \<open>fault\<close>, returned as \<open>Inl\<close>.
\<close>

subsection \<open>XML trees (libyang's \<^verbatim>\<open>struct lyxml_elem\<close>)\<close>

text \<open>
  An element has a name, an optional namespace (\<^verbatim>\<open>ns\<close> may be NULL), optional text
  content, its attributes and its children in document order (the C structure links the
  children through \<^verbatim>\<open>child\<close> and \<^verbatim>\<open>next\<close>; \<^verbatim>\<open>xml->child == NULL\<close> is the empty list).
\<close>

datatype lyxml_elem =
  Elem (elem_name: string) (elem_ns: "string option") (elem_content: "string option")
       (elem_attr: "(string \<times> string) list") (elem_child: "lyxml_elem list")

text \<open>\<^verbatim>\<open>lyxml_get_attr(elem, name, NULL)\<close>: the value of the first attribute of that name, or NULL.\<close>

definition lyxml_get_attr :: "lyxml_elem \<Rightarrow> string \<Rightarrow> string option" where
  "lyxml_get_attr e n = map_of (elem_attr e) n"

text \<open>The base namespace, \<^verbatim>\<open>NC_NS_BASE\<close> of the library's header.\<close>

definition NC_NS_BASE :: string where
  "NC_NS_BASE = ''urn:ietf:params:xml:ns:netconf:base:1.0''"

subsection \<open>\<^verbatim>\<open>strtoul(str, &ptr, 10)\<close> on a 64-bit \<^verbatim>\<open>unsigned long\<close>\<close>

text \<open>
  The C library function as ISO C defines it: white space is skipped, one sign is read,
  then the longest run of decimal digits. No digit gives 0; a value above
  \<^verbatim>\<open>ULONG_MAX\<close> gives \<^verbatim>\<open>ULONG_MAX\<close>; a minus sign negates the value in the unsigned type.
\<close>

definition isspace :: "char \<Rightarrow> bool" where
  "isspace c = (of_char c \<in> {32::nat, 9, 10, 11, 12, 13})"

definition isdigit :: "char \<Rightarrow> bool" where
  "isdigit c = (48 \<le> (of_char c :: nat) \<and> (of_char c :: nat) \<le> 57)"

definition digit_val :: "char \<Rightarrow> nat" where
  "digit_val c = of_char c - 48"

definition decimal :: "string \<Rightarrow> nat" where
  "decimal ds = foldl (\<lambda>a c. a * 10 + digit_val c) 0 ds"

definition ULONG_MAX :: nat where
  "ULONG_MAX = 2 ^ 64 - 1"

definition strtoul :: "string \<Rightarrow> 64 word" where
  "strtoul str =
     (let s1 = dropWhile isspace str;
          neg = (case s1 of c # _ \<Rightarrow> c = CHR ''-'' | [] \<Rightarrow> False);
          s2 = (case s1 of c # r \<Rightarrow> (if c = CHR ''-'' \<or> c = CHR ''+'' then r else s1) | [] \<Rightarrow> s1);
          v = decimal (takeWhile isdigit s2)
      in if ULONG_MAX < v then word_of_nat ULONG_MAX
         else if neg then - word_of_nat v
         else word_of_nat v)"

subsection \<open>The session\<close>

datatype NC_MSG_TYPE =
  NC_MSG_ERROR | NC_MSG_WOULDBLOCK | NC_MSG_NONE | NC_MSG_HELLO | NC_MSG_RPC
  | NC_MSG_REPLY | NC_MSG_NOTIF

datatype NC_STATUS =
  NC_STATUS_STARTING | NC_STATUS_CLOSING | NC_STATUS_INVALID | NC_STATUS_RUNNING

datatype NC_SIDE = NC_CLIENT | NC_SERVER

datatype fault = NullDeref | UninitRead | BadCast

text \<open>
  A line of the log: the macro (\<^verbatim>\<open>ERR\<close>, \<^verbatim>\<open>WRN\<close>, \<^verbatim>\<open>VRB\<close>), the format string of the
  source (its escaped double quotes left out) and the arguments passed.
\<close>

datatype log_arg = Str string | Num nat

datatype log_msg = ERR string "log_arg list" | WRN string "log_arg list" | VRB string "log_arg list"

text \<open>
  What one call of \<^verbatim>\<open>nc_read_msg_poll\<close> finds on the transport: a parsed message of
  one of the four kinds, a failure, or nothing before the timeout.
\<close>

datatype wire_event =
  Hello_in lyxml_elem | Rpc_in lyxml_elem | Reply_in lyxml_elem | Notif_in lyxml_elem
  | Read_error | Read_timeout

text \<open>
  The schema context of libyang, as far as this file uses it: the loaded modules with
  their enabled features, and the module retrieval callback with its user data.
  \<open>Get_schema_clb\<close> stands for the function pointer \<^verbatim>\<open>&libyang_module_clb\<close>, any
  other callback is a \<open>User_clb\<close>.
\<close>

datatype module_clb = Get_schema_clb | User_clb nat

datatype clb_data = Session_data | User_data nat

record lys_module =
  mod_name :: string
  mod_revision :: "string option"
  mod_features :: "string list"

record ly_ctx =
  ctx_modules :: "lys_module list"
  ctx_module_clb :: "module_clb option"
  ctx_module_clb_data :: "clb_data option"

text \<open>
  A data tree of libyang (\<^verbatim>\<open>struct lyd_node\<close>): the name of its schema node, its children,
  the value of a leaf and the XML value of an anyxml node.
\<close>

datatype lyd_node =
  Lyd_node (lyd_schema: "string option") (lyd_child: "lyd_node list")
           (lyd_leaf_value: "string option") (lyd_anyxml_value: "lyxml_elem option")

text \<open>
  The fields of \<^verbatim>\<open>struct nc_session\<close> the modelled functions read or write, and five
  fields for what lies outside the structure: \<open>wire\<close>, the messages the transport will
  deliver, one per read; \<open>lock_calls\<close>, the number of calls of \<^verbatim>\<open>nc_timedlock\<close> so far;
  \<open>logged\<close>, the lines written to the log; \<open>freed\<close>, the XML trees handed to
  \<^verbatim>\<open>lyxml_free\<close>; \<open>sent\<close>, the RPC trees written to the transport.
\<close>

record nc_session =
  session_id :: nat
  session_status :: NC_STATUS
  session_side :: NC_SIDE
  session_cpblts :: "string list"
  session_ctx :: ly_ctx
  session_msgid :: "64 word"
  replies :: "lyxml_elem list"
  notifs :: "lyxml_elem list"
  wire :: "wire_event list"
  lock_calls :: nat
  logged :: "log_msg list"
  freed :: "lyxml_elem list"
  sent :: "lyd_node list"

subsection \<open>Requests, replies and the collaborators\<close>

text \<open>
  The RPC descriptors (\<^verbatim>\<open>struct nc_rpc\<close> and the structures cast from it). A generic RPC
  carries a data tree (\<^verbatim>\<open>has_data\<close>) or an XML string; a get-schema RPC its identifier,
  version and format. The fields of the other descriptors are read by the RPC builder
  only and are left out. \<open>NC_RPC_UNKNOWN\<close> is a \<^verbatim>\<open>type\<close> outside the enumeration.
\<close>

datatype nc_rpc_content = Content_data lyd_node | Content_xml_str string

datatype nc_rpc =
  NC_RPC_UNKNOWN | NC_RPC_GENERIC nc_rpc_content | NC_RPC_GETCONFIG | NC_RPC_EDIT | NC_RPC_COPY
  | NC_RPC_DELETE | NC_RPC_LOCK | NC_RPC_UNLOCK | NC_RPC_GET | NC_RPC_KILL | NC_RPC_COMMIT
  | NC_RPC_DISCARD | NC_RPC_CANCEL | NC_RPC_VALIDATE
  | NC_RPC_GETSCHEMA string "string option" "string option" | NC_RPC_SUBSCRIBE

text \<open>
  Parser options are bit flags of libyang; a set of flags is the list of its members, so
  that \<^verbatim>\<open>a | b\<close> is \<open>a @ b\<close>, \<^verbatim>\<open>a & MASK\<close> is non-zero when a member lies in the mask, and
  \<^verbatim>\<open>a &= ~b\<close> filters. \<^verbatim>\<open>LYD_OPT_TYPEMASK\<close> covers the flags that name the kind of data.
\<close>

datatype lyd_opt =
  LYD_OPT_CONFIG | LYD_OPT_GET | LYD_OPT_GETCONFIG | LYD_OPT_EDIT | LYD_OPT_RPC
  | LYD_OPT_RPCREPLY | LYD_OPT_NOTIF | LYD_OPT_STRICT | LYD_OPT_DESTRUCT | LYD_OPT_OBSOLETE
  | LYD_OPT_NOSIBLINGS

definition LYD_OPT_TYPEMASK :: "lyd_opt list" where
  "LYD_OPT_TYPEMASK = [LYD_OPT_CONFIG, LYD_OPT_GET, LYD_OPT_GETCONFIG, LYD_OPT_EDIT, LYD_OPT_RPC,
     LYD_OPT_RPCREPLY, LYD_OPT_NOTIF]"

text \<open>
  The collaborators whose code is outside this file, as parameters:
  \<^item> \<open>nc_timedlock E n timeout\<close>: the result \<open>(r, elapsed)\<close> of the \<open>n\<close>-th call of
    \<^verbatim>\<open>nc_timedlock(session->ti_lock, timeout, &elapsed)\<close>; \<open>r\<close> is -1 (error), 0 (timeout)
    or 1 (locked);
  \<^item> \<open>lyd_parse_mem\<close>, \<open>lyd_parse_xml\<close>, \<open>ly_ctx_get_node\<close>, \<open>lyxml_print_mem\<close>,
    \<open>lyd_new_leaf\<close> (does creating the leaf succeed), \<open>lyd_validate\<close> (is the tree valid):
    libyang;
  \<^item> \<open>nc_write_msg\<close>: does writing the RPC to the transport succeed;
  \<^item> \<open>module_source clb name revision\<close>: the module that \<^verbatim>\<open>ly_ctx_load_module\<close> obtains
    when \<open>clb\<close> is the installed retrieval callback (the search directory when there is
    none);
  \<^item> \<open>lys_parse_path\<close>: the module a schema file parses to;
  \<^item> \<open>SCHEMAS_DIR\<close>: the directory of the bundled schemas, a macro of the build.
\<close>

record env =
  nc_timedlock :: "nat \<Rightarrow> int \<Rightarrow> int \<times> int"
  lyd_parse_mem :: "ly_ctx \<Rightarrow> string \<Rightarrow> lyd_opt list \<Rightarrow> lyd_node option"
  lyd_parse_xml :: "ly_ctx \<Rightarrow> lyxml_elem list \<Rightarrow> lyd_opt list \<Rightarrow> string option \<Rightarrow> lyd_node option"
  ly_ctx_get_node :: "ly_ctx \<Rightarrow> string \<Rightarrow> string option"
  lyxml_print_mem :: "lyxml_elem \<Rightarrow> string option"
  lyd_new_leaf :: "string \<Rightarrow> string \<Rightarrow> bool"
  lyd_validate :: "lyd_node \<Rightarrow> bool"
  nc_write_msg :: "lyd_node \<Rightarrow> bool"
  module_source :: "module_clb option \<Rightarrow> string \<Rightarrow> string option \<Rightarrow> lys_module option"
  lys_parse_path :: "string \<Rightarrow> lys_module option"
  SCHEMAS_DIR :: string

text \<open>
  The decoded \<^verbatim>\<open><rpc-error>\<close> (\<^verbatim>\<open>struct nc_err\<close>); a NULL string is \<open>None\<close>, a counted
  array is the list of its members.
\<close>

record nc_err =
  err_type :: "string option"
  err_tag :: "string option"
  err_severity :: "string option"
  err_apptag :: "string option"
  err_path :: "string option"
  err_message :: "string option"
  err_message_lang :: "string option"
  err_sid :: "string option"
  err_attr :: "string list"
  err_elem :: "string list"
  err_ns :: "string list"
  err_other :: "lyxml_elem list"

datatype nc_reply = NC_RPL_OK | NC_RPL_DATA lyd_node | NC_RPL_ERROR "nc_err list"

subsection \<open>The reply parser\<close>

text \<open>The record \<^verbatim>\<open>calloc\<close> returns: every pointer NULL, every count 0.\<close>

definition nc_err_calloc :: nc_err where
  "nc_err_calloc = \<lparr>err_type = None, err_tag = None, err_severity = None, err_apptag = None,
     err_path = None, err_message = None, err_message_lang = None, err_sid = None,
     err_attr = [], err_elem = [], err_ns = [], err_other = []\<rparr>"

text \<open>The values \<^verbatim>\<open>parse_rpc_error\<close> compares an \<^verbatim>\<open><error-type>\<close>,
  \<^verbatim>\<open><error-tag>\<close> and \<^verbatim>\<open><error-severity>\<close> with, in the order of the source.\<close>

definition error_types :: "string list" where
  "error_types = [''transport'', ''rpc'', ''protocol'', ''application'']"

definition error_tags :: "string list" where
  "error_tags = [''in-use'', ''invalid-value'', ''too-big'', ''missing-attribute'',
     ''bad-attribute'', ''unknown-attribute'', ''missing-element'', ''bad-element'',
     ''unknown-element'', ''unknown-namespace'', ''access-denied'', ''lock-denied'',
     ''resource-denied'', ''rollback-failed'', ''data-exists'', ''data-missing'',
     ''operation-not-supported'', ''operation-failed'', ''malformed-message'']"

definition error_severities :: "string list" where
  "error_severities = [''error'', ''warning'']"

text \<open>\<^verbatim>\<open>(iter->content ? iter->content : "")\<close>\<close>

definition content_or_empty :: "lyxml_elem \<Rightarrow> string" where
  "content_or_empty e = (case elem_content e of None \<Rightarrow> [] | Some c \<Rightarrow> c)"

text \<open>One child of \<^verbatim>\<open><error-info>\<close>: the body of the inner loop of \<^verbatim>\<open>parse_rpc_error\<close>.\<close>

definition error_info_child :: "lyxml_elem \<Rightarrow> nc_err \<times> log_msg list \<Rightarrow> nc_err \<times> log_msg list" where
  "error_info_child info st =
     (case st of (err, lg) \<Rightarrow>
        if elem_ns info = Some NC_NS_BASE then
          if elem_name info = ''session-id'' then
            (if err_sid err \<noteq> None
             then (err, lg @ [WRN ''<rpc-error> <error-info> <session-id> duplicated.'' []])
             else (err\<lparr>err_sid := Some (content_or_empty info)\<rparr>, lg))
          else if elem_name info = ''bad-attr'' then
            (err\<lparr>err_attr := err_attr err @ [content_or_empty info]\<rparr>, lg)
          else if elem_name info = ''bad-element'' then
            (err\<lparr>err_elem := err_elem err @ [content_or_empty info]\<rparr>, lg)
          else if elem_name info = ''bad-namespace'' then
            (err\<lparr>err_ns := err_ns err @ [content_or_empty info]\<rparr>, lg)
          else
            (case elem_content info of
               Some c \<Rightarrow> (err, lg @ [WRN ''<rpc-error> <error-info> unknown child %s with value %s.''
                                       [Str (elem_name info), Str c]])
             | None \<Rightarrow> (err, lg @ [WRN ''<rpc-error> <error-info> unknown child %s.''
                                       [Str (elem_name info)]]))
        else (err\<lparr>err_other := err_other err @ [info]\<rparr>, lg))"

text \<open>
  The branches of the outer loop of \<^verbatim>\<open>parse_rpc_error\<close>, one definition for each child
  element it knows; \<open>iter\<close> is the child, \<open>st\<close> the record filled so far with the lines
  logged so far.
\<close>

definition error_type_child :: "lyxml_elem \<Rightarrow> nc_err \<times> log_msg list \<Rightarrow> nc_err \<times> log_msg list" where
  "error_type_child iter st =
     (case st of (err, lg) \<Rightarrow>
        if elem_content iter = None \<or> content_or_empty iter \<notin> set error_types
        then (err, lg @ [WRN ''<rpc-error> <error-type> unknown value %s.'' [Str (content_or_empty iter)]])
        else if err_type err \<noteq> None
        then (err, lg @ [WRN ''<rpc-error> <error-type> duplicated.'' []])
        else (err\<lparr>err_type := elem_content iter\<rparr>, lg))"

definition error_tag_child :: "lyxml_elem \<Rightarrow> nc_err \<times> log_msg list \<Rightarrow> nc_err \<times> log_msg list" where
  "error_tag_child iter st =
     (case st of (err, lg) \<Rightarrow>
        if elem_content iter = None \<or> content_or_empty iter \<notin> set error_tags
        then (err, lg @ [WRN ''<rpc-error> <error-tag> unknown value %s.'' [Str (content_or_empty iter)]])
        else if err_tag err \<noteq> None
        then (err, lg @ [WRN ''<rpc-error> <error-tag> duplicated.'' []])
        else (err\<lparr>err_tag := elem_content iter\<rparr>, lg))"

definition error_severity_child :: "lyxml_elem \<Rightarrow> nc_err \<times> log_msg list \<Rightarrow> nc_err \<times> log_msg list" where
  "error_severity_child iter st =
     (case st of (err, lg) \<Rightarrow>
        if elem_content iter = None \<or> content_or_empty iter \<notin> set error_severities
        then (err, lg @ [WRN ''<rpc-error> <error-severity> unknown value %s.'' [Str (content_or_empty iter)]])
        else if err_severity err \<noteq> None
        then (err, lg @ [WRN ''<rpc-error> <error-severity> duplicated.'' []])
        else (err\<lparr>err_severity := elem_content iter\<rparr>, lg))"

definition error_app_tag_child :: "lyxml_elem \<Rightarrow> nc_err \<times> log_msg list \<Rightarrow> nc_err \<times> log_msg list" where
  "error_app_tag_child iter st =
     (case st of (err, lg) \<Rightarrow>
        if err_apptag err \<noteq> None
        then (err, lg @ [WRN ''<rpc-error> <error-app-tag> duplicated.'' []])
        else (err\<lparr>err_apptag := Some (content_or_empty iter)\<rparr>, lg))"

definition error_path_child :: "lyxml_elem \<Rightarrow> nc_err \<times> log_msg list \<Rightarrow> nc_err \<times> log_msg list" where
  "error_path_child iter st =
     (case st of (err, lg) \<Rightarrow>
        if err_path err \<noteq> None
        then (err, lg @ [WRN ''<rpc-error> <error-path> duplicated.'' []])
        else (err\<lparr>err_path := Some (content_or_empty iter)\<rparr>, lg))"

definition error_message_child :: "lyxml_elem \<Rightarrow> nc_err \<times> log_msg list \<Rightarrow> nc_err \<times> log_msg list" where
  "error_message_child iter st =
     (case st of (err, lg) \<Rightarrow>
        if err_message err \<noteq> None
        then (err, lg @ [WRN ''<rpc-error> <error-message> duplicated.'' []])
        else (err\<lparr>err_message_lang := lyxml_get_attr iter ''xml:lang'',
                  err_message := Some (content_or_empty iter)\<rparr>,
              lg @ (if lyxml_get_attr iter ''xml:lang'' = None
                    then [VRB ''<rpc-error> <error-message> without the recommended xml:lang attribute.'' []]
                    else [])))"

text \<open>The warnings for a child that is skipped: no namespace, a foreign namespace, an unknown name.\<close>

definition skipped_child :: "lyxml_elem \<Rightarrow> string option \<Rightarrow> log_msg" where
  "skipped_child iter where_ns =
     (case where_ns of
        None \<Rightarrow>
          (case elem_content iter of
             Some c \<Rightarrow> WRN ''<rpc-error> child %s with value %s without namespace.''
                         [Str (elem_name iter), Str c]
           | None \<Rightarrow> WRN ''<rpc-error> child %s without namespace.'' [Str (elem_name iter)])
      | Some nsv \<Rightarrow>
          (case elem_content iter of
             Some c \<Rightarrow> WRN ''<rpc-error> child %s with value %s in an unknown namespace %s.''
                         [Str (elem_name iter), Str c, Str nsv]
           | None \<Rightarrow> WRN ''<rpc-error> child %s in an unknown namespace %s.''
                         [Str (elem_name iter), Str nsv]))"

definition unknown_child :: "lyxml_elem \<Rightarrow> log_msg" where
  "unknown_child iter =
     (case elem_content iter of
        Some c \<Rightarrow> WRN ''<rpc-error> unknown child %s with value %s.'' [Str (elem_name iter), Str c]
      | None \<Rightarrow> WRN ''<rpc-error> unknown child %s.'' [Str (elem_name iter)])"

text \<open>One child of \<^verbatim>\<open><rpc-error>\<close>: the body of the outer loop of \<^verbatim>\<open>parse_rpc_error\<close>.\<close>

definition rpc_error_child :: "lyxml_elem \<Rightarrow> nc_err \<times> log_msg list \<Rightarrow> nc_err \<times> log_msg list" where
  "rpc_error_child iter st =
     (case elem_ns iter of
        None \<Rightarrow> (fst st, snd st @ [skipped_child iter None])
      | Some nsv \<Rightarrow>
          if nsv \<noteq> NC_NS_BASE then (fst st, snd st @ [skipped_child iter (Some nsv)])
          else if elem_name iter = ''error-type'' then error_type_child iter st
          else if elem_name iter = ''error-tag'' then error_tag_child iter st
          else if elem_name iter = ''error-severity'' then error_severity_child iter st
          else if elem_name iter = ''error-app-tag'' then error_app_tag_child iter st
          else if elem_name iter = ''error-path'' then error_path_child iter st
          else if elem_name iter = ''error-message'' then error_message_child iter st
          else if elem_name iter = ''error-info'' then fold error_info_child (elem_child iter) st
          else (fst st, snd st @ [unknown_child iter]))"

text \<open>
  \<^verbatim>\<open>parse_rpc_error(ctx, xml, err)\<close> fills \<open>err\<close> from the children of \<open>xml\<close>, in document
  order. The result is the filled record and the lines logged on the way. (The source also
  unlinks the foreign \<^verbatim>\<open><error-info>\<close> children from \<open>xml\<close>, which is freed by the caller.)
\<close>

definition parse_rpc_error :: "ly_ctx \<Rightarrow> lyxml_elem \<Rightarrow> nc_err \<Rightarrow> nc_err \<times> log_msg list" where
  "parse_rpc_error ctx xml err = fold rpc_error_child (elem_child xml) (err, [])"

text \<open>
  The first loop over the children of an \<^verbatim>\<open><rpc-reply>\<close> that starts with an
  \<^verbatim>\<open><rpc-error>\<close>: the line logged at the first child that is not an \<^verbatim>\<open><rpc-error>\<close> of the base
  namespace, if there is one (the source then returns NULL).
\<close>

fun rpc_error_mismatch :: "lyxml_elem list \<Rightarrow> log_msg option" where
  "rpc_error_mismatch [] = None"
| "rpc_error_mismatch (iter # rest) =
     (if elem_name iter \<noteq> ''rpc-error''
      then Some (ERR ''<rpc-reply> content mismatch (<rpc-error> and <%s>).'' [Str (elem_name iter)])
      else case elem_ns iter of
             None \<Rightarrow> Some (ERR ''<rpc-reply> content mismatch (<rpc-error> without namespace).'' [])
           | Some nsv \<Rightarrow>
               if nsv \<noteq> NC_NS_BASE
               then Some (ERR ''<rpc-reply> content mismatch (<rpc-error> with NS %s).'' [Str nsv])
               else rpc_error_mismatch rest)"

text \<open>
  The branch of \<^verbatim>\<open>parse_reply\<close> for a reply that is neither errors nor \<^verbatim>\<open><ok/>\<close>: the
  \<^verbatim>\<open>switch (rpc->type)\<close> and the parse of the data that follows it.
\<close>

definition parse_reply_data ::
  "env \<Rightarrow> ly_ctx \<Rightarrow> lyxml_elem \<Rightarrow> lyxml_elem \<Rightarrow> nc_rpc \<Rightarrow> lyd_opt list \<Rightarrow> nc_reply option \<times> log_msg list" where
  "parse_reply_data E ctx xml first rpc parseroptions =
     (let finish = (\<lambda>schema.
            case lyd_parse_xml E ctx (elem_child xml)
                   ([LYD_OPT_DESTRUCT, LYD_OPT_RPCREPLY] @ parseroptions) schema of
              None \<Rightarrow> (None, [ERR ''Failed to parse <rpc-reply>.'' []])
            | Some d \<Rightarrow> (Some (NC_RPL_DATA d), []));
          no_output = (None, [ERR ''Unexpected data reply (root elem %s).'' [Str (elem_name first)]])
      in case rpc of
           NC_RPC_GENERIC content \<Rightarrow>
             (case content of
                Content_data d \<Rightarrow>
                  (case lyd_schema d of
                     None \<Rightarrow> (None, [ERR ''ERRINT'' []])
                   | Some sch \<Rightarrow> finish (Some sch))
              | Content_xml_str str \<Rightarrow>
                  (case lyd_parse_mem E ctx str (LYD_OPT_RPC # parseroptions) of
                     None \<Rightarrow> (None, [ERR ''Failed to parse a generic RPC XML.'' []])
                   | Some d \<Rightarrow>
                       (case lyd_schema d of
                          None \<Rightarrow> (None, [ERR ''ERRINT'' []])
                        | Some sch \<Rightarrow> finish (Some sch))))
         | NC_RPC_GETCONFIG \<Rightarrow>
             (case lyd_parse_xml E ctx (elem_child first)
                     ([LYD_OPT_DESTRUCT, LYD_OPT_GETCONFIG] @ parseroptions) None of
                None \<Rightarrow> (None, [ERR ''Failed to parse <%s> reply.'' [Str ''get-config'']])
              | Some d \<Rightarrow> (Some (NC_RPL_DATA d), []))
         | NC_RPC_GET \<Rightarrow>
             (case lyd_parse_xml E ctx (elem_child first)
                     ([LYD_OPT_DESTRUCT, LYD_OPT_GET] @ parseroptions) None of
                None \<Rightarrow> (None, [ERR ''Failed to parse <%s> reply.'' [Str ''get'']])
              | Some d \<Rightarrow> (Some (NC_RPL_DATA d), []))
         | NC_RPC_GETSCHEMA _ _ _ \<Rightarrow>
             (case ly_ctx_get_node E ctx ''/ietf-netconf-monitoring:get-schema'' of
                None \<Rightarrow> (None, [ERR ''ERRINT'' []])
              | Some sch \<Rightarrow> finish (Some sch))
         | NC_RPC_EDIT \<Rightarrow> no_output
         | NC_RPC_COPY \<Rightarrow> no_output
         | NC_RPC_DELETE \<Rightarrow> no_output
         | NC_RPC_LOCK \<Rightarrow> no_output
         | NC_RPC_UNLOCK \<Rightarrow> no_output
         | NC_RPC_KILL \<Rightarrow> no_output
         | NC_RPC_COMMIT \<Rightarrow> no_output
         | NC_RPC_DISCARD \<Rightarrow> no_output
         | NC_RPC_CANCEL \<Rightarrow> no_output
         | NC_RPC_VALIDATE \<Rightarrow> no_output
         | NC_RPC_SUBSCRIBE \<Rightarrow> no_output
         | NC_RPC_UNKNOWN \<Rightarrow> (None, [ERR ''ERRINT'' []]))"

text \<open>
  \<^verbatim>\<open>parse_reply(ctx, xml, rpc, parseroptions)\<close>: the reply, or NULL (\<open>None\<close>), and the
  lines logged.
\<close>

definition parse_reply ::
  "env \<Rightarrow> ly_ctx \<Rightarrow> lyxml_elem \<Rightarrow> nc_rpc \<Rightarrow> lyd_opt list \<Rightarrow> nc_reply option \<times> log_msg list" where
  "parse_reply E ctx xml rpc parseroptions =
     (case elem_child xml of
        [] \<Rightarrow> (None, [ERR ''An empty <rpc-reply>.'' []])
      | first # rest \<Rightarrow>
          if elem_name first = ''rpc-error'' \<and> elem_ns first = Some NC_NS_BASE then
            (case rpc_error_mismatch (first # rest) of
               Some line \<Rightarrow> (None, [line])
             | None \<Rightarrow>
                 (let errs = map (\<lambda>iter. parse_rpc_error ctx iter nc_err_calloc) (first # rest)
                  in (Some (NC_RPL_ERROR (map fst errs)), concat (map snd errs))))
          else if elem_name first = ''ok'' \<and> elem_ns first = Some NC_NS_BASE then
            (case rest of
               nxt # _ \<Rightarrow> (None, [ERR ''<rpc-reply> content mismatch (<ok> and <%s>).'' [Str (elem_name nxt)]])
             | [] \<Rightarrow> (Some NC_RPL_OK, []))
          else parse_reply_data E ctx xml first rpc parseroptions)"

subsection \<open>The message pump\<close>

text \<open>
  Modelled from the spec: \<^verbatim>\<open>nc_read_msg_poll\<close> (the framing layer, not in this file)
  delivers one fully parsed XML root per call, or reports an error or the expiry of the
  timeout. Here it takes the next event of \<open>wire\<close>; an empty \<open>wire\<close> is a timeout.
\<close>

definition nc_read_msg_poll :: "nc_session \<Rightarrow> int \<Rightarrow> wire_event \<times> nc_session" where
  "nc_read_msg_poll session timeout =
     (case wire session of
        [] \<Rightarrow> (Read_timeout, session)
      | ev # w \<Rightarrow> (ev, session\<lparr>wire := w\<rparr>))"

text \<open>
  The loop of \<^verbatim>\<open>get_msg\<close> over the reply queue (\<^verbatim>\<open>while (session->replies)\<close>), run on the
  queue \<open>q\<close>: each container is taken off the head; \<^verbatim>\<open>strtoul\<close> reads its
  \<^verbatim>\<open>message-id\<close> attribute without a check for NULL; a container with the wanted number is
  returned, any other is logged and freed. The result is the message found, if any, and
  the session with the rest of the queue.
\<close>

fun scan_replies :: "64 word \<Rightarrow> lyxml_elem list \<Rightarrow> nc_session \<Rightarrow> fault + (lyxml_elem option \<times> nc_session)" where
  "scan_replies msgid [] session = Inr (None, session\<lparr>replies := []\<rparr>)"
| "scan_replies msgid (cont # rest) session =
     (case lyxml_get_attr cont ''message-id'' of
        None \<Rightarrow> Inl NullDeref
      | Some str_msgid \<Rightarrow>
          if strtoul str_msgid = msgid then Inr (Some cont, session\<lparr>replies := rest\<rparr>)
          else scan_replies msgid rest
                 (session\<lparr>replies := rest,
                    logged := logged session @
                      [ERR ''Session %u: discarding a <rpc-reply> with an unexpected message-id %s.''
                         [Str str_msgid]],
                    freed := freed session @ [cont]\<rparr>))"

text \<open>
  The second half of \<^verbatim>\<open>get_msg\<close>: one message is read from the transport; a reply read
  while a notification is wanted is appended to \<open>replies\<close> (when it has a
  \<^verbatim>\<open>message-id\<close>), a notification read while a reply is wanted is appended to \<open>notifs\<close>;
  the \<^verbatim>\<open>switch\<close> then sets \<^verbatim>\<open>*msg\<close> for the wanted kind only and the type of the message
  read is returned.
\<close>

definition get_msg_wire :: "nc_session \<Rightarrow> int \<Rightarrow> 64 word \<Rightarrow> NC_MSG_TYPE \<times> lyxml_elem option \<times> nc_session" where
  "get_msg_wire session timeout msgid =
     (case nc_read_msg_poll session timeout of
        (ev, s) \<Rightarrow>
          (case ev of
             Reply_in xml \<Rightarrow>
               if msgid = 0 then
                 (case lyxml_get_attr xml ''message-id'' of
                    None \<Rightarrow>
                      (NC_MSG_ERROR, None,
                       s\<lparr>logged := logged s @
                            [ERR ''Session %u: received a <rpc-reply> with no message-id, discarding.''
                               [Num (session_id s)]],
                          freed := freed s @ [xml]\<rparr>)
                  | Some str_msgid \<Rightarrow> (NC_MSG_REPLY, None, s\<lparr>replies := replies s @ [xml]\<rparr>))
               else (NC_MSG_REPLY, Some xml, s)
           | Notif_in xml \<Rightarrow>
               if msgid \<noteq> 0 then (NC_MSG_NOTIF, None, s\<lparr>notifs := notifs s @ [xml]\<rparr>)
               else (NC_MSG_NOTIF, Some xml, s)
           | Hello_in xml \<Rightarrow>
               (NC_MSG_ERROR, None,
                s\<lparr>logged := logged s @
                     [ERR ''Session %u: received another <hello> message.'' [Num (session_id s)]],
                   freed := freed s @ [xml]\<rparr>)
           | Rpc_in xml \<Rightarrow>
               (NC_MSG_ERROR, None,
                s\<lparr>logged := logged s @
                     [ERR ''Session %u: received <rpc> from a NETCONF server.'' [Num (session_id s)]],
                   freed := freed s @ [xml]\<rparr>)
           | Read_error \<Rightarrow> (NC_MSG_ERROR, None, s)
           | Read_timeout \<Rightarrow> (NC_MSG_WOULDBLOCK, None, s)))"

text \<open>
  \<^verbatim>\<open>get_msg(session, timeout, msgid, &msg)\<close>: the message type returned, \<^verbatim>\<open>*msg\<close> when
  the function sets it, and the session afterwards.
\<close>

definition get_msg ::
  "env \<Rightarrow> nc_session \<Rightarrow> int \<Rightarrow> 64 word \<Rightarrow> fault + (NC_MSG_TYPE \<times> lyxml_elem option \<times> nc_session)" where
  "get_msg E session timeout msgid =
     (case nc_timedlock E (lock_calls session) timeout of
        (r, elapsed) \<Rightarrow>
          (let s = session\<lparr>lock_calls := Suc (lock_calls session)\<rparr>;
               timeout' = (if 0 < timeout then timeout - elapsed else timeout)
           in if r = - 1 then Inr (NC_MSG_ERROR, None, s)
              else if r = 0 then Inr (NC_MSG_WOULDBLOCK, None, s)
              else if msgid = 0 \<and> notifs s \<noteq> []
              then Inr (NC_MSG_NOTIF, Some (hd (notifs s)), s\<lparr>notifs := tl (notifs s)\<rparr>)
              else if msgid \<noteq> 0 \<and> replies s \<noteq> [] then
                (case scan_replies msgid (replies s) s of
                   Inl f \<Rightarrow> Inl f
                 | Inr (Some cont, s') \<Rightarrow> Inr (NC_MSG_REPLY, Some cont, s')
                 | Inr (None, s') \<Rightarrow> Inr (get_msg_wire s' timeout' msgid))
              else Inr (get_msg_wire s timeout' msgid)))"

text \<open>
  \<^verbatim>\<open>nc_recv_reply(session, rpc, msgid, timeout, parseroptions, &reply)\<close>, called with
  valid pointers: the message type returned, \<^verbatim>\<open>*reply\<close> and the session afterwards. When
  \<^verbatim>\<open>get_msg\<close> returns \<^verbatim>\<open>NC_MSG_REPLY\<close> without setting \<^verbatim>\<open>*msg\<close>, the source parses an
  uninitialised pointer.
\<close>

definition nc_recv_reply ::
  "env \<Rightarrow> nc_session \<Rightarrow> nc_rpc \<Rightarrow> 64 word \<Rightarrow> int \<Rightarrow> lyd_opt list \<Rightarrow>
     fault + (NC_MSG_TYPE \<times> nc_reply option \<times> nc_session)" where
  "nc_recv_reply E session rpc msgid timeout parseroptions =
     (if list_ex (\<lambda>opt. opt \<in> set LYD_OPT_TYPEMASK) parseroptions
      then Inr (NC_MSG_ERROR, None, session\<lparr>logged := logged session @ [ERR ''ERRARG'' []]\<rparr>)
      else if session_status session \<noteq> NC_STATUS_RUNNING \<or> session_side session \<noteq> NC_CLIENT
      then Inr (NC_MSG_ERROR, None,
                session\<lparr>logged := logged session @
                  [ERR ''Session %u: invalid session to receive RPC replies.'' [Num (session_id session)]]\<rparr>)
      else
        (let opts = filter (\<lambda>opt. opt \<noteq> LYD_OPT_DESTRUCT \<and> opt \<noteq> LYD_OPT_NOSIBLINGS) parseroptions
         in case get_msg E session timeout msgid of
              Inl f \<Rightarrow> Inl f
            | Inr (msgtype, msg, s) \<Rightarrow>
                if msgtype = NC_MSG_REPLY then
                  (case msg of
                     None \<Rightarrow> Inl UninitRead
                   | Some xml \<Rightarrow>
                       (case parse_reply E (session_ctx s) xml rpc opts of
                          (reply, lines) \<Rightarrow>
                            (let s' = s\<lparr>logged := logged s @ lines, freed := freed s @ [xml]\<rparr>
                             in case reply of
                                  None \<Rightarrow> Inr (NC_MSG_ERROR, None, s')
                                | Some rpl \<Rightarrow> Inr (NC_MSG_REPLY, Some rpl, s'))))
                else Inr (msgtype, None, s)))"

subsection \<open>Strings of C\<close>

text \<open>
  C strings are lists of characters without the terminating NUL.
  \<^verbatim>\<open>strncmp(s, t, n) == 0\<close>: the first \<open>n\<close> characters of the two strings agree (the end
  of a string counts as a character).
\<close>

definition strncmp_eq :: "string \<Rightarrow> string \<Rightarrow> nat \<Rightarrow> bool" where
  "strncmp_eq s t n = (take n s = take n t)"

text \<open>\<^verbatim>\<open>strstr(haystack, needle)\<close>: the rest of the string from the first occurrence on, or NULL.\<close>

fun strstr :: "string \<Rightarrow> string \<Rightarrow> string option" where
  "strstr [] needle = (if needle = [] then Some [] else None)"
| "strstr (c # cs) needle =
     (if take (length needle) (c # cs) = needle then Some (c # cs) else strstr cs needle)"

text \<open>
  The value of a parameter of a capability, as \<^verbatim>\<open>ctx_check_and_load_model\<close> cuts it out:
  from behind the first occurrence of \<open>key\<close> up to the next \<^verbatim>\<open>&\<close> or the end.
\<close>

definition cpblt_param :: "string \<Rightarrow> string \<Rightarrow> string option" where
  "cpblt_param cpblt key =
     (case strstr cpblt key of
        None \<Rightarrow> None
      | Some ptr \<Rightarrow> Some (takeWhile (\<lambda>c. c \<noteq> CHR ''&'') (drop (length key) ptr)))"

text \<open>
  The manual \<^verbatim>\<open>strtok_r\<close> of \<^verbatim>\<open>ctx_check_and_load_model\<close>: the pieces of the feature list
  between its commas (one piece more than there are commas).
\<close>

fun split_features :: "string \<Rightarrow> string list" where
  "split_features [] = [[]]"
| "split_features (c # cs) =
     (if c = CHR '','' then [] # split_features cs
      else case split_features cs of
             [] \<Rightarrow> [[c]]
           | t # ts \<Rightarrow> (c # t) # ts)"

subsection \<open>The schema context (libyang, outside the repository)\<close>

text \<open>
  \<^verbatim>\<open>ly_ctx_get_module(ctx, name, revision)\<close>: a loaded module of that name, and of that
  revision when one is given.
\<close>

definition ly_ctx_get_module :: "ly_ctx \<Rightarrow> string \<Rightarrow> string option \<Rightarrow> lys_module option" where
  "ly_ctx_get_module ctx n revision =
     find (\<lambda>m. mod_name m = n \<and> (revision = None \<or> mod_revision m = revision)) (ctx_modules ctx)"

text \<open>
  \<^verbatim>\<open>ly_ctx_load_module(ctx, name, revision)\<close> asks the installed callback, or searches the
  schema directory when there is none, and adds the module it obtains to the context.
\<close>

definition ly_ctx_load_module :: "env \<Rightarrow> ly_ctx \<Rightarrow> string \<Rightarrow> string option \<Rightarrow> lys_module option \<times> ly_ctx" where
  "ly_ctx_load_module E ctx n revision =
     (case module_source E (ctx_module_clb ctx) n revision of
        None \<Rightarrow> (None, ctx)
      | Some m \<Rightarrow> (Some m, ctx\<lparr>ctx_modules := ctx_modules ctx @ [m]\<rparr>))"

definition lys_parse_path_ctx :: "env \<Rightarrow> ly_ctx \<Rightarrow> string \<Rightarrow> lys_module option \<times> ly_ctx" where
  "lys_parse_path_ctx E ctx path =
     (case lys_parse_path E path of
        None \<Rightarrow> (None, ctx)
      | Some m \<Rightarrow> (Some m, ctx\<lparr>ctx_modules := ctx_modules ctx @ [m]\<rparr>))"

text \<open>
  \<^verbatim>\<open>lys_features_enable(module, name)\<close> marks the feature as enabled in that module of the
  context. (libyang refuses a feature the module does not define; the model records the
  name.)
\<close>

definition same_module :: "lys_module \<Rightarrow> lys_module \<Rightarrow> bool" where
  "same_module m x = (mod_name x = mod_name m \<and> mod_revision x = mod_revision m)"

definition lys_features_enable :: "ly_ctx \<Rightarrow> lys_module \<Rightarrow> string \<Rightarrow> ly_ctx" where
  "lys_features_enable ctx m f =
     ctx\<lparr>ctx_modules :=
       map (\<lambda>x. if same_module m x then x\<lparr>mod_features := mod_features x @ [f]\<rparr> else x)
         (ctx_modules ctx)\<rparr>"

definition ly_ctx_set_module_clb :: "ly_ctx \<Rightarrow> module_clb option \<Rightarrow> clb_data option \<Rightarrow> ly_ctx" where
  "ly_ctx_set_module_clb ctx clb user_data = ctx\<lparr>ctx_module_clb := clb, ctx_module_clb_data := user_data\<rparr>"

subsection \<open>The schema context loader\<close>

text \<open>
  \<^verbatim>\<open>ctx_check_and_load_model(session, cpblt)\<close>: -1 when the capability has no
  \<^verbatim>\<open>module=\<close>, 1 when the module is neither in the context nor loaded, 0 otherwise, after
  enabling the features of the capability. The result comes with the context afterwards
  and the lines logged.
\<close>

definition ctx_check_and_load_model :: "env \<Rightarrow> ly_ctx \<Rightarrow> string \<Rightarrow> int \<times> ly_ctx \<times> log_msg list" where
  "ctx_check_and_load_model E ctx cpblt =
     (case cpblt_param cpblt ''module='' of
        None \<Rightarrow> (- 1, ctx, [ERR ''Unknown capability %s could not be parsed.'' [Str cpblt]])
      | Some model_name \<Rightarrow>
          (let revision = cpblt_param cpblt ''revision='';
               loaded = (case ly_ctx_get_module ctx model_name revision of
                           Some m \<Rightarrow> (Some m, ctx)
                         | None \<Rightarrow> ly_ctx_load_module E ctx model_name revision)
           in case loaded of
                (None, ctx') \<Rightarrow> (1, ctx', [WRN ''Failed to load model %s.'' [Str model_name]])
              | (Some m, ctx') \<Rightarrow>
                  (case cpblt_param cpblt ''features='' of
                     None \<Rightarrow> (0, ctx', [])
                   | Some features \<Rightarrow>
                       (0, fold (\<lambda>f c. lys_features_enable c m f) (split_features features) ctx', []))))"

text \<open>
  The feature of \<^verbatim>\<open>ietf-netconf\<close> that \<^verbatim>\<open>ctx_check_and_load_ietf_netconf\<close> enables for one
  capability: the chain of comparisons of its loop.
\<close>

definition capability_feature :: "string \<Rightarrow> string option" where
  "capability_feature cpblt =
     (if strncmp_eq cpblt ''urn:ietf:params:netconf:capability:'' 35 then
        (let r = drop 35 cpblt
         in if strncmp_eq r ''writable-running'' 16 then Some ''writable-running''
            else if strncmp_eq r ''candidate'' 9 then Some ''candidate''
            else if r = ''confirmed-commit:1.1'' then Some ''confirmed-commit''
            else if strncmp_eq r ''rollback-on-error'' 17 then Some ''rollback-on-error''
            else if r = ''validate:1.1'' then Some ''validate''
            else if strncmp_eq r ''startup'' 7 then Some ''startup''
            else if strncmp_eq r ''url'' 3 then Some ''url''
            else if strncmp_eq r ''xpath'' 5 then Some ''xpath''
            else None)
      else None)"

text \<open>
  The first half of \<^verbatim>\<open>ctx_check_and_load_ietf_netconf\<close>: \<^verbatim>\<open>ietf-netconf\<close> is taken from
  the context, else loaded, else parsed from the bundled file.
\<close>

definition load_ietf_netconf :: "env \<Rightarrow> ly_ctx \<Rightarrow> lys_module option \<times> ly_ctx" where
  "load_ietf_netconf E ctx =
     (case ly_ctx_get_module ctx ''ietf-netconf'' None of
        Some m \<Rightarrow> (Some m, ctx)
      | None \<Rightarrow>
          (case ly_ctx_load_module E ctx ''ietf-netconf'' None of
             (Some m, ctx') \<Rightarrow> (Some m, ctx')
           | (None, ctx') \<Rightarrow> lys_parse_path_ctx E ctx' (SCHEMAS_DIR E @ ''/ietf-netconf.yin'')))"

text \<open>
  \<^verbatim>\<open>ctx_check_and_load_ietf_netconf(ctx, cpblts)\<close>: 1 when \<^verbatim>\<open>ietf-netconf\<close> cannot be
  had; otherwise 0, with the features of the capabilities enabled.
\<close>

definition ctx_check_and_load_ietf_netconf ::
  "env \<Rightarrow> ly_ctx \<Rightarrow> string list \<Rightarrow> int \<times> ly_ctx \<times> log_msg list" where
  "ctx_check_and_load_ietf_netconf E ctx cpblts =
     (case load_ietf_netconf E ctx of
        (None, ctx') \<Rightarrow> (1, ctx', [ERR ''Loading base NETCONF schema failed.'' []])
      | (Some ietfnc, ctx') \<Rightarrow>
          (0, fold (\<lambda>cpblt c. case capability_feature cpblt of
                                None \<Rightarrow> c
                              | Some f \<Rightarrow> lys_features_enable c ietfnc f) cpblts ctx', []))"

text \<open>The capabilities the last loop of \<^verbatim>\<open>nc_ctx_check_and_fill\<close> skips.\<close>

definition skipped_cpblt :: "string \<Rightarrow> bool" where
  "skipped_cpblt cpblt =
     (strncmp_eq cpblt ''urn:ietf:params:netconf:capability'' 34
      \<or> strncmp_eq cpblt ''urn:ietf:params:netconf:base'' 28)"

text \<open>
  The body of that loop after the first \<^verbatim>\<open>ctx_check_and_load_model\<close> returned 1: the
  second attempt with the old callback when get-schema is supported, and the get-schema
  callback installed afterwards. The result is the final \<open>r\<close>, the context and the lines
  logged.
\<close>

definition retry_model ::
  "env \<Rightarrow> bool \<Rightarrow> module_clb option \<Rightarrow> clb_data option \<Rightarrow> ly_ctx \<Rightarrow> string \<Rightarrow> int \<times> ly_ctx \<times> log_msg list" where
  "retry_model E get_schema_support old_clb old_data ctx cpblt =
     (case (if get_schema_support
            then (case ctx_check_and_load_model E (ly_ctx_set_module_clb ctx old_clb old_data) cpblt of
                    (r, ctx', lines) \<Rightarrow>
                      (r, ctx', VRB ''Trying to load the schema from a different source.'' [] # lines))
            else (1, ctx, [])) of
        (r, ctx', lines) \<Rightarrow> (r, ly_ctx_set_module_clb ctx' (Some Get_schema_clb) (Some Session_data), lines))"

text \<open>
  The loop over the capabilities (\<^verbatim>\<open>/* load all other models */\<close>) from the state
  \<open>(ret, ctx, lines)\<close>: a first result of -1 sets \<open>ret\<close> to -1 and leaves the loop, a final
  result other than 0 sets \<open>ret\<close> to 1.
\<close>

fun load_models ::
  "env \<Rightarrow> bool \<Rightarrow> module_clb option \<Rightarrow> clb_data option \<Rightarrow> string list \<Rightarrow>
     int \<times> ly_ctx \<times> log_msg list \<Rightarrow> int \<times> ly_ctx \<times> log_msg list" where
  "load_models E gs old_clb old_data [] st = st"
| "load_models E gs old_clb old_data (cpblt # rest) st =
     (case st of (ret, ctx, lines) \<Rightarrow>
        if skipped_cpblt cpblt then load_models E gs old_clb old_data rest st
        else case ctx_check_and_load_model E ctx cpblt of
               (r, ctx', lines') \<Rightarrow>
                 if r = - 1 then (- 1, ctx', lines @ lines')
                 else if r = 1 then
                   (case retry_model E gs old_clb old_data ctx' cpblt of
                      (r', ctx'', lines'') \<Rightarrow>
                        load_models E gs old_clb old_data rest
                          (if r' \<noteq> 0 then 1 else ret, ctx'', lines @ lines' @ lines''))
                 else load_models E gs old_clb old_data rest (ret, ctx', lines @ lines'))"

text \<open>
  The first step of \<^verbatim>\<open>nc_ctx_check_and_fill\<close>: is get-schema supported, and when it is
  and the monitoring schema gets loaded from the bundled file, the get-schema callback is
  installed and the old one remembered. The result is \<open>(old_clb, old_data)\<close>, the context
  and the lines logged.
\<close>

definition get_schema_support :: "string list \<Rightarrow> bool" where
  "get_schema_support cpblts =
     list_ex (\<lambda>cpblt. strncmp_eq cpblt ''urn:ietf:params:xml:ns:yang:ietf-netconf-monitoring'' 51) cpblts"

definition install_get_schema ::
  "env \<Rightarrow> ly_ctx \<Rightarrow> string list \<Rightarrow> (module_clb option \<times> clb_data option) \<times> ly_ctx \<times> log_msg list" where
  "install_get_schema E ctx cpblts =
     (if get_schema_support cpblts \<and> ly_ctx_get_module ctx ''ietf-netconf-monitoring'' None = None then
        (case lys_parse_path_ctx E ctx (SCHEMAS_DIR E @ ''/ietf-netconf-monitoring.yin'') of
           (Some m, ctx') \<Rightarrow>
             ((ctx_module_clb ctx', ctx_module_clb_data ctx'),
              ly_ctx_set_module_clb ctx' (Some Get_schema_clb) (Some Session_data), [])
         | (None, ctx') \<Rightarrow>
             ((None, None), ctx',
              [WRN ''Loading NETCONF monitoring schema failed, cannot use <get-schema>.'' []]))
      else ((None, None), ctx, []))"

text \<open>
  \<^verbatim>\<open>nc_ctx_check_and_fill(session)\<close>: 0, 1 or -1, and the session with its context and the
  log afterwards.
\<close>

definition nc_ctx_check_and_fill :: "env \<Rightarrow> nc_session \<Rightarrow> int \<times> nc_session" where
  "nc_ctx_check_and_fill E session =
     (case install_get_schema E (session_ctx session) (session_cpblts session) of
        ((old_clb, old_data), ctx1, lines1) \<Rightarrow>
          (case ctx_check_and_load_ietf_netconf E ctx1 (session_cpblts session) of
             (b, ctx2, lines2) \<Rightarrow>
               if b \<noteq> 0 then
                 (- 1, session\<lparr>session_ctx :=
                                 (if old_clb \<noteq> None then ly_ctx_set_module_clb ctx2 old_clb old_data else ctx2),
                               logged := logged session @ lines1 @ lines2\<rparr>)
               else
                 (case load_models E (get_schema_support (session_cpblts session)) old_clb old_data
                         (session_cpblts session) (0, ctx2, lines1 @ lines2) of
                    (ret, ctx3, lines3) \<Rightarrow>
                      (ret, session\<lparr>session_ctx :=
                                      (if old_clb \<noteq> None then ly_ctx_set_module_clb ctx3 old_clb old_data
                                       else ctx3),
                                    logged := logged session @ lines3 @
                                      (if ret = 1
                                       then [WRN ''Some models failed to be loaded, any data from these models will be ignored.'' []]
                                       else [])\<rparr>))))"

subsection \<open>Sending the get-schema RPC\<close>

text \<open>
  The data tree that \<^verbatim>\<open>nc_send_rpc\<close> builds for a descriptor of type
  \<^verbatim>\<open>NC_RPC_GETSCHEMA\<close>: \<^verbatim>\<open>get-schema\<close> with the leaf \<^verbatim>\<open>identifier\<close> and, when given, the
  leaves \<^verbatim>\<open>version\<close> and \<^verbatim>\<open>format\<close>.
\<close>

definition lyd_leaf :: "string \<Rightarrow> string \<Rightarrow> lyd_node" where
  "lyd_leaf n v = Lyd_node (Some n) [] (Some v) None"

definition getschema_tree :: "string \<Rightarrow> string option \<Rightarrow> string option \<Rightarrow> lyd_node" where
  "getschema_tree identifier version format =
     Lyd_node (Some ''get-schema'')
       ([lyd_leaf ''identifier'' identifier]
        @ (case version of None \<Rightarrow> [] | Some v \<Rightarrow> [lyd_leaf ''version'' v])
        @ (case format of None \<Rightarrow> [] | Some f \<Rightarrow> [lyd_leaf ''format'' f]))
       None None"

text \<open>
  Modelled from the spec: \<^verbatim>\<open>nc_send_msg\<close> (not in this file) assigns the next message-ID
  and writes one framed RPC; it returns \<^verbatim>\<open>NC_MSG_RPC\<close>, or \<^verbatim>\<open>NC_MSG_ERROR\<close> when the write
  fails.
\<close>

definition nc_send_msg :: "env \<Rightarrow> nc_session \<Rightarrow> lyd_node \<Rightarrow> NC_MSG_TYPE \<times> nc_session" where
  "nc_send_msg E session data =
     (if nc_write_msg E data
      then (NC_MSG_RPC, session\<lparr>session_msgid := session_msgid session + 1, sent := sent session @ [data]\<rparr>)
      else (NC_MSG_ERROR, session))"

text \<open>
  \<^verbatim>\<open>nc_send_rpc(session, rpc, timeout, &msgid)\<close> for a descriptor of type
  \<^verbatim>\<open>NC_RPC_GETSCHEMA\<close>, the case of its \<^verbatim>\<open>switch\<close> that the get-schema callback reaches: the
  message type returned, \<^verbatim>\<open>*msgid\<close> when it is set, and the session afterwards.
\<close>

definition nc_send_rpc_getschema ::
  "env \<Rightarrow> nc_session \<Rightarrow> string \<Rightarrow> string option \<Rightarrow> string option \<Rightarrow> int \<Rightarrow>
     NC_MSG_TYPE \<times> 64 word option \<times> nc_session" where
  "nc_send_rpc_getschema E session identifier version format timeout =
     (if session_status session \<noteq> NC_STATUS_RUNNING \<or> session_side session \<noteq> NC_CLIENT
      then (NC_MSG_ERROR, None,
            session\<lparr>logged := logged session @
              [ERR ''Session %u: invalid session to send RPCs.'' [Num (session_id session)]]\<rparr>)
      else if ly_ctx_get_module (session_ctx session) ''ietf-netconf-monitoring'' None = None
      then (NC_MSG_ERROR, None,
            session\<lparr>logged := logged session @
              [ERR ''Session %u: missing ietf-netconf-monitoring schema in the context.''
                 [Num (session_id session)]]\<rparr>)
      else if \<not> lyd_new_leaf E ''identifier'' identifier then (NC_MSG_ERROR, None, session)
      else if (case version of None \<Rightarrow> False | Some v \<Rightarrow> \<not> lyd_new_leaf E ''version'' v)
      then (NC_MSG_ERROR, None, session)
      else if (case format of None \<Rightarrow> False | Some f \<Rightarrow> \<not> lyd_new_leaf E ''format'' f)
      then (NC_MSG_ERROR, None, session)
      else if \<not> lyd_validate E (getschema_tree identifier version format)
      then (NC_MSG_ERROR, None, session)
      else
        (let ret = fst (nc_timedlock E (lock_calls session) timeout);
             s = session\<lparr>lock_calls := Suc (lock_calls session)\<rparr>
         in if ret = - 1 then (NC_MSG_ERROR, None, s)
            else if ret = 0 then (NC_MSG_WOULDBLOCK, None, s)
            else case nc_send_msg E s (getschema_tree identifier version format) of
                   (r, s') \<Rightarrow> if r \<noteq> NC_MSG_RPC then (r, None, s')
                              else (NC_MSG_RPC, Some (session_msgid s'), s')))"

text \<open>
  The loop of \<^verbatim>\<open>libyang_module_clb\<close> around \<^verbatim>\<open>nc_send_rpc\<close>: the RPC is sent again (after
  \<^verbatim>\<open>usleep\<close>) as long as the call returns \<^verbatim>\<open>NC_MSG_WOULDBLOCK\<close>. The loop need not end;
  \<open>None\<close> is the run that does not.
\<close>

partial_function (option) send_until_sent ::
  "env \<Rightarrow> nc_session \<Rightarrow> string \<Rightarrow> string option \<Rightarrow> string option \<Rightarrow>
     (NC_MSG_TYPE \<times> 64 word option \<times> nc_session) option" where
  "send_until_sent E session identifier version format =
     (if fst (nc_send_rpc_getschema E session identifier version format 0) = NC_MSG_WOULDBLOCK
      then send_until_sent E (snd (snd (nc_send_rpc_getschema E session identifier version format 0)))
             identifier version format
      else Some (nc_send_rpc_getschema E session identifier version format 0))"

subsection \<open>The get-schema callback\<close>

text \<open>\<^verbatim>\<open>strchr\<close> and \<^verbatim>\<open>strrchr\<close>: the rest of the string from the first, or the last,
  occurrence of the character on, or NULL.\<close>

fun strchr :: "string \<Rightarrow> char \<Rightarrow> string option" where
  "strchr [] c = None"
| "strchr (x # xs) c = (if x = c then Some (x # xs) else strchr xs c)"

fun strrchr :: "string \<Rightarrow> char \<Rightarrow> string option" where
  "strrchr [] c = None"
| "strrchr (x # xs) c =
     (case strrchr xs c of
        Some r \<Rightarrow> Some r
      | None \<Rightarrow> if x = c then Some (x # xs) else None)"

text \<open>
  The end of \<^verbatim>\<open>libyang_module_clb\<close> (\<^verbatim>\<open>/* it's with the data root node, remove it */\<close>):
  \<^verbatim>\<open>ptr\<close> is one past the first \<^verbatim>\<open>>\<close>, \<^verbatim>\<open>ptr2\<close> the last \<^verbatim>\<open><\<close>, and
  \<^verbatim>\<open>strndup(ptr, strlen(ptr) - strlen(ptr2))\<close> copies at most that many characters of
  \<^verbatim>\<open>ptr\<close>, the difference taken in the 64-bit \<^verbatim>\<open>size_t\<close>. Neither pointer is checked for
  NULL.
\<close>

definition strip_data_root :: "string \<Rightarrow> fault + string" where
  "strip_data_root anyxml =
     (case strchr anyxml CHR ''>'' of
        None \<Rightarrow> Inl NullDeref
      | Some p \<Rightarrow>
          (case strrchr anyxml CHR ''<'' of
             None \<Rightarrow> Inl NullDeref
           | Some ptr2 \<Rightarrow>
               Inr (take (nat ((int (length (tl p)) - int (length ptr2)) mod 2 ^ 64)) (tl p))))"

text \<open>
  \<^verbatim>\<open>libyang_module_clb(name, revision, user_data, &format, &free_model_data)\<close> with the
  session as user data: the schema text returned, or NULL, and the session afterwards.
  Where the source dereferences the NULL \<^verbatim>\<open>reply\<close> that \<^verbatim>\<open>nc_recv_reply\<close> leaves with a
  message type other than the three it tests, the result is a fault.
\<close>

definition libyang_module_clb ::
  "env \<Rightarrow> nc_session \<Rightarrow> string \<Rightarrow> string option \<Rightarrow> (fault + (string option \<times> nc_session)) option" where
  "libyang_module_clb E session n revision =
     (case send_until_sent E session n revision (Some ''yin'') of
        None \<Rightarrow> None
      | Some (msg, sent_msgid, s1) \<Rightarrow>
          Some
            (if msg = NC_MSG_ERROR
             then Inr (None, s1\<lparr>logged := logged s1 @
                         [ERR ''Session %u: failed to send the <get-schema> RPC.'' [Num (session_id s1)]]\<rparr>)
             else case sent_msgid of
                    None \<Rightarrow> Inl UninitRead
                  | Some msgid \<Rightarrow>
                      (case nc_recv_reply E s1 (NC_RPC_GETSCHEMA n revision (Some ''yin'')) msgid 250 [] of
                         Inl f \<Rightarrow> Inl f
                       | Inr (msg', reply, s2) \<Rightarrow>
                           if msg' = NC_MSG_WOULDBLOCK
                           then Inr (None, s2\<lparr>logged := logged s2 @
                                  [ERR ''Session %u: timeout for receiving reply to a <get-schema> expired.''
                                     [Num (session_id s2)]]\<rparr>)
                           else if msg' = NC_MSG_ERROR
                           then Inr (None, s2\<lparr>logged := logged s2 @
                                  [ERR ''Session %u: failed to receive a reply to <get-schema>.''
                                     [Num (session_id s2)]]\<rparr>)
                           else
                             (case reply of
                                None \<Rightarrow> Inl NullDeref
                              | Some (NC_RPL_DATA d) \<Rightarrow>
                                  (case lyd_anyxml_value d of
                                     None \<Rightarrow> Inl BadCast
                                   | Some v \<Rightarrow>
                                       (case lyxml_print_mem E v of
                                          None \<Rightarrow> Inr (None, s2)
                                        | Some anyxml \<Rightarrow>
                                            (case strip_data_root anyxml of
                                               Inl f \<Rightarrow> Inl f
                                             | Inr model_data \<Rightarrow> Inr (Some model_data, s2))))
                              | Some _ \<Rightarrow>
                                  Inr (None, s2\<lparr>logged := logged s2 @
                                    [ERR ''Session %u: unexpected reply type to a <get-schema> RPC.''
                                       [Num (session_id s2)]]\<rparr>)))))"

section \<open>Predicates of the statements\<close>

text \<open>The reply queue invariant: every queued reply has a \<^verbatim>\<open>message-id\<close> attribute.\<close>

definition replies_have_msgid :: "nc_session \<Rightarrow> bool" where
  "replies_have_msgid session = list_all (\<lambda>cont. lyxml_get_attr cont ''message-id'' \<noteq> None) (replies session)"

text \<open>
  For the statements about the queue scan: the line logged when the container \<open>cont\<close> is
  discarded, and whether the \<^verbatim>\<open>message-id\<close> of a container reads as \<open>msgid\<close>.
\<close>

definition discard_line :: "lyxml_elem \<Rightarrow> log_msg" where
  "discard_line cont =
     ERR ''Session %u: discarding a <rpc-reply> with an unexpected message-id %s.''
       [Str (case lyxml_get_attr cont ''message-id'' of None \<Rightarrow> [] | Some v \<Rightarrow> v)]"

definition other_msgid :: "64 word \<Rightarrow> lyxml_elem \<Rightarrow> bool" where
  "other_msgid msgid cont =
     (case lyxml_get_attr cont ''message-id'' of None \<Rightarrow> False | Some v \<Rightarrow> strtoul v \<noteq> msgid)"

definition has_msgid :: "64 word \<Rightarrow> lyxml_elem \<Rightarrow> bool" where
  "has_msgid msgid cont =
     (case lyxml_get_attr cont ''message-id'' of None \<Rightarrow> False | Some v \<Rightarrow> strtoul v = msgid)"

text \<open>For the statements about the reply parser: the tag of an error record is absent or one
  of \<open>error_tags\<close>; an element has a given name and the base namespace.\<close>

definition tag_known :: "nc_err \<Rightarrow> bool" where
  "tag_known err = (case err_tag err of None \<Rightarrow> True | Some t \<Rightarrow> t \<in> set error_tags)"

definition is_base :: "string \<Rightarrow> lyxml_elem \<Rightarrow> bool" where
  "is_base n e = (elem_name e = n \<and> elem_ns e = Some NC_NS_BASE)"

text \<open>
  For the statements about the loader. A feature is enabled in a module of the context.
  \<^verbatim>\<open>ietf-netconf\<close> cannot be had: it is not in the context, its source does not have it
  and the bundled file does not parse. A module capability fails: it names no module, or
  its module is not in the context, the installed source does not have it and, when
  get-schema is supported, neither has the source that was installed before.
  \<open>visits\<close> pairs each capability with the context the loop has reached when it gets
  to it.
\<close>

definition feature_enabled :: "ly_ctx \<Rightarrow> lys_module \<Rightarrow> string \<Rightarrow> bool" where
  "feature_enabled ctx m f =
     list_ex (\<lambda>x. same_module m x \<and> f \<in> set (mod_features x)) (ctx_modules ctx)"





section \<open>Inputs to run the functions on\<close>

text \<open>An environment in which the lock is free and nothing parses or loads, a running
  session with empty queues, and messages.\<close>

definition example_env :: env where
  "example_env = \<lparr>nc_timedlock = (\<lambda>n t. (1, 0)), lyd_parse_mem = (\<lambda>c s opt. None),
     lyd_parse_xml = (\<lambda>c x opt sch. None), ly_ctx_get_node = (\<lambda>c p. None),
     lyxml_print_mem = (\<lambda>x. None), lyd_new_leaf = (\<lambda>n v. True), lyd_validate = (\<lambda>d. True),
     nc_write_msg = (\<lambda>d. True), module_source = (\<lambda>c n r. None), lys_parse_path = (\<lambda>p. None),
     SCHEMAS_DIR = ''/usr/share/libnetconf2''\<rparr>"

definition example_session :: nc_session where
  "example_session = \<lparr>session_id = 1, session_status = NC_STATUS_RUNNING, session_side = NC_CLIENT,
     session_cpblts = [], session_ctx = \<lparr>ctx_modules = [], ctx_module_clb = None, ctx_module_clb_data = None\<rparr>,
     session_msgid = 0, replies = [], notifs = [], wire = [], lock_calls = 0, logged = [], freed = [],
     sent = []\<rparr>"

definition reply_ok :: "string \<Rightarrow> lyxml_elem" where
  "reply_ok i = Elem ''rpc-reply'' (Some NC_NS_BASE) None [(''message-id'', i)]
                  [Elem ''ok'' (Some NC_NS_BASE) None [] []]"

definition example_notif :: lyxml_elem where
  "example_notif = Elem ''notification'' None None []
     [Elem ''eventTime'' None (Some ''2020-01-01T00:00:00Z'') [] []]"

text \<open>Replies and errors to run the parser on.\<close>

definition rpc_error_with_tag :: "string \<Rightarrow> lyxml_elem" where
  "rpc_error_with_tag t = Elem ''rpc-error'' (Some NC_NS_BASE) None []
     [Elem ''error-tag'' (Some NC_NS_BASE) (Some t) [] []]"

definition example_rpc_error :: lyxml_elem where
  "example_rpc_error = Elem ''rpc-error'' (Some NC_NS_BASE) None []
     [Elem ''error-type'' (Some NC_NS_BASE) (Some ''application'') [] [],
      Elem ''error-tag'' (Some NC_NS_BASE) (Some ''no-such-tag'') [] [],
      Elem ''error-tag'' (Some NC_NS_BASE) (Some ''data-missing'') [] [],
      Elem ''error-severity'' (Some NC_NS_BASE) (Some ''error'') [] [],
      Elem ''error-path'' (Some NC_NS_BASE) (Some ''/a/b'') [] []]"

definition base_elem :: "string \<Rightarrow> lyxml_elem" where
  "base_elem n = Elem n (Some NC_NS_BASE) None [] []"

text \<open>Environments, contexts and capability lists to run the loader on.\<close>

definition base_module :: lys_module where
  "base_module = \<lparr>mod_name = ''ietf-netconf'', mod_revision = Some ''2011-06-01'', mod_features = []\<rparr>"

definition loader_env :: env where
  "loader_env = example_env
     \<lparr>module_source := (\<lambda>clb n r. if clb = None \<and> n = ''acme''
                                   then Some \<lparr>mod_name = ''acme'', mod_revision = r, mod_features = []\<rparr>
                                   else None),
      lys_parse_path := (\<lambda>p. if p = ''/usr/share/libnetconf2/ietf-netconf.yin''
                              then Some base_module else None)\<rparr>"

definition empty_ctx :: ly_ctx where
  "empty_ctx = \<lparr>ctx_modules = [], ctx_module_clb = None, ctx_module_clb_data = None\<rparr>"

definition netconf_cpblts :: "string list" where
  "netconf_cpblts = [''urn:ietf:params:netconf:base:1.0'',
     ''urn:ietf:params:netconf:capability:candidate:1.0'',
     ''urn:ietf:params:netconf:capability:validate:1.0'',
     ''urn:ietf:params:netconf:capability:xpath:1.0'']"


definition user_clb_session :: nc_session where
  "user_clb_session = example_session
     \<lparr>session_cpblts := [''urn:ietf:params:netconf:base:1.0'', ''urn:foo?module=foo''],
      session_ctx := \<lparr>ctx_modules = [base_module], ctx_module_clb = Some (User_clb 7),
                       ctx_module_clb_data = Some (User_data 7)\<rparr>\<rparr>"

text \<open>A server that answers a get-schema RPC, to run the callback on.\<close>

definition schema_env :: env where
  "schema_env = example_env
     \<lparr>nc_timedlock := (\<lambda>n t. if n < 2 then (0, 0) else (1, 0)),
      lyd_parse_xml := (\<lambda>c xs opts sch. case xs of [] \<Rightarrow> None
                          | x # _ \<Rightarrow> Some (Lyd_node (Some ''data'') [] None (Some x))),
      ly_ctx_get_node := (\<lambda>c p. if p = ''/ietf-netconf-monitoring:get-schema''
                                 then Some ''get-schema'' else None),
      lyxml_print_mem := (\<lambda>x. Some ''<data><module>acme</module></data>'')\<rparr>"

definition schema_reply :: lyxml_elem where
  "schema_reply = Elem ''rpc-reply'' (Some NC_NS_BASE) None [(''message-id'', ''1'')]
     [Elem ''data'' (Some ''urn:ietf:params:xml:ns:yang:ietf-netconf-monitoring'')
        (Some ''<module>acme</module>'') [] []]"

definition schema_session :: nc_session where
  "schema_session = example_session
     \<lparr>session_ctx := \<lparr>ctx_modules = [\<lparr>mod_name = ''ietf-netconf-monitoring'',
                                        mod_revision = Some ''2010-10-04'', mod_features = []\<rparr>],
                       ctx_module_clb = Some Get_schema_clb, ctx_module_clb_data = Some Session_data\<rparr>\<rparr>"

section \<open>Properties of the message pump\<close>

lemma scan_replies_found:
  "list_all (other_msgid msgid) pre \<Longrightarrow> has_msgid msgid cont \<Longrightarrow>
   scan_replies msgid (pre @ cont # post) s =
     Inr (Some cont, s\<lparr>replies := post, logged := logged s @ map discard_line pre,
                        freed := freed s @ pre\<rparr>)"
proof (induction pre arbitrary: s)
  case Nil
  then show ?case by (simp add: has_msgid_def split: option.splits)
next
  case (Cons c pre)
  from Cons.prems(1) obtain v where v: "lyxml_get_attr c ''message-id'' = Some v" "strtoul v \<noteq> msgid"
    by (auto simp: other_msgid_def split: option.splits)
  from Cons.prems have "list_all (other_msgid msgid) pre" by simp
  from Cons.IH [OF this Cons.prems(2)] v show ?case
    by (simp add: discard_line_def)
qed

lemma scan_replies_none:
  "list_all (other_msgid msgid) q \<Longrightarrow>
   scan_replies msgid q s =
     Inr (None, s\<lparr>replies := [], logged := logged s @ map discard_line q, freed := freed s @ q\<rparr>)"
proof (induction q arbitrary: s)
  case Nil
  then show ?case by simp
next
  case (Cons c q)
  from Cons.prems obtain v where v: "lyxml_get_attr c ''message-id'' = Some v" "strtoul v \<noteq> msgid"
    by (auto simp: other_msgid_def split: option.splits)
  from Cons.prems have "list_all (other_msgid msgid) q" by simp
  from Cons.IH [OF this] v show ?case
    by (simp add: discard_line_def)
qed

text \<open>
  C4. When a reply is wanted (\<open>msgid \<noteq> 0\<close>) and the lock is taken, \<^verbatim>\<open>get_msg\<close> walks a
  non-empty reply queue from its head: the first container whose \<^verbatim>\<open>message-id\<close> reads as
  \<open>msgid\<close> is removed and returned; every container before it is logged, freed and no
  longer in the queue, which keeps what followed the match. \<^verbatim>\<open>nc_recv_reply\<close>, on a running
  client session, then returns the parse of that container. When no container matches,
  all of them are logged and freed, the queue is empty, and the transport is read.
\<close>

theorem get_msg_queue_scan:
  assumes lock: "nc_timedlock E (lock_calls s) timeout = (r, elapsed)" "r \<noteq> - 1" "r \<noteq> 0"
    and want: "msgid \<noteq> 0"
    and pre: "list_all (other_msgid msgid) pre"
  shows "(replies s = pre @ cont # post \<and> has_msgid msgid cont \<longrightarrow>
            get_msg E s timeout msgid =
              Inr (NC_MSG_REPLY, Some cont,
                   s\<lparr>lock_calls := Suc (lock_calls s), replies := post,
                      logged := logged s @ map discard_line pre, freed := freed s @ pre\<rparr>))
       \<and> (replies s = pre @ cont # post \<and> has_msgid msgid cont
            \<and> session_status s = NC_STATUS_RUNNING \<and> session_side s = NC_CLIENT
            \<and> list_all (\<lambda>opt. opt \<notin> set LYD_OPT_TYPEMASK) parseroptions \<longrightarrow>
            nc_recv_reply E s rpc msgid timeout parseroptions =
              Inr (case parse_reply E (session_ctx s) cont rpc
                          (filter (\<lambda>opt. opt \<noteq> LYD_OPT_DESTRUCT \<and> opt \<noteq> LYD_OPT_NOSIBLINGS) parseroptions) of
                     (reply, lines) \<Rightarrow>
                       (if reply = None then NC_MSG_ERROR else NC_MSG_REPLY, reply,
                        s\<lparr>lock_calls := Suc (lock_calls s), replies := post,
                           logged := logged s @ map discard_line pre @ lines,
                           freed := freed s @ pre @ [cont]\<rparr>)))
       \<and> (replies s = pre \<and> pre \<noteq> [] \<longrightarrow>
            get_msg E s timeout msgid =
              Inr (get_msg_wire
                     (s\<lparr>lock_calls := Suc (lock_calls s), replies := [],
                        logged := logged s @ map discard_line pre, freed := freed s @ pre\<rparr>)
                     (if 0 < timeout then timeout - elapsed else timeout) msgid))"
proof -
  have found: "get_msg E s timeout msgid =
              Inr (NC_MSG_REPLY, Some cont,
                   s\<lparr>lock_calls := Suc (lock_calls s), replies := post,
                      logged := logged s @ map discard_line pre, freed := freed s @ pre\<rparr>)"
    if a: "replies s = pre @ cont # post \<and> has_msgid msgid cont"
  proof -
    from a have "scan_replies msgid (replies s) (s\<lparr>lock_calls := Suc (lock_calls s)\<rparr>) =
       Inr (Some cont, s\<lparr>lock_calls := Suc (lock_calls s), replies := post,
                         logged := logged s @ map discard_line pre, freed := freed s @ pre\<rparr>)"
      using scan_replies_found [OF pre, of cont post "s\<lparr>lock_calls := Suc (lock_calls s)\<rparr>"] by simp
    with a lock want show ?thesis by (simp add: get_msg_def)
  qed
  have recv: "nc_recv_reply E s rpc msgid timeout parseroptions =
              Inr (case parse_reply E (session_ctx s) cont rpc
                          (filter (\<lambda>opt. opt \<noteq> LYD_OPT_DESTRUCT \<and> opt \<noteq> LYD_OPT_NOSIBLINGS) parseroptions) of
                     (reply, lines) \<Rightarrow>
                       (if reply = None then NC_MSG_ERROR else NC_MSG_REPLY, reply,
                        s\<lparr>lock_calls := Suc (lock_calls s), replies := post,
                           logged := logged s @ map discard_line pre @ lines,
                           freed := freed s @ pre @ [cont]\<rparr>))"
    if a: "replies s = pre @ cont # post \<and> has_msgid msgid cont
            \<and> session_status s = NC_STATUS_RUNNING \<and> session_side s = NC_CLIENT
            \<and> list_all (\<lambda>opt. opt \<notin> set LYD_OPT_TYPEMASK) parseroptions"
  proof -
    from a have g: "get_msg E s timeout msgid =
              Inr (NC_MSG_REPLY, Some cont,
                   s\<lparr>lock_calls := Suc (lock_calls s), replies := post,
                      logged := logged s @ map discard_line pre, freed := freed s @ pre\<rparr>)"
      by (intro found) simp
    from a have opts: "\<not> list_ex (\<lambda>opt. opt \<in> set LYD_OPT_TYPEMASK) parseroptions"
      by (simp add: list_all_iff list_ex_iff)
    from a opts show ?thesis
      by (simp add: nc_recv_reply_def g Let_def split: prod.split option.split)
  qed
  have none: "get_msg E s timeout msgid =
              Inr (get_msg_wire
                     (s\<lparr>lock_calls := Suc (lock_calls s), replies := [],
                        logged := logged s @ map discard_line pre, freed := freed s @ pre\<rparr>)
                     (if 0 < timeout then timeout - elapsed else timeout) msgid)"
    if a: "replies s = pre \<and> pre \<noteq> []"
  proof -
    have "scan_replies msgid pre (s\<lparr>lock_calls := Suc (lock_calls s)\<rparr>) =
       Inr (None, s\<lparr>lock_calls := Suc (lock_calls s), replies := [],
                         logged := logged s @ map discard_line pre, freed := freed s @ pre\<rparr>)"
      using scan_replies_none [OF pre, of "s\<lparr>lock_calls := Suc (lock_calls s)\<rparr>"] by simp
    with a lock want show ?thesis by (simp add: get_msg_def)
  qed
  from found recv none show ?thesis by blast
qed

lemmas strtoul_eval = strtoul_def isspace_def isdigit_def decimal_def digit_val_def ULONG_MAX_def

lemma scan_replies_keeps_msgid:
  "list_all (\<lambda>cont. lyxml_get_attr cont ''message-id'' \<noteq> None) q \<Longrightarrow>
   list_all (\<lambda>cont. lyxml_get_attr cont ''message-id'' \<noteq> None) (replies s) \<Longrightarrow>
   \<exists>m s'. scan_replies msgid q s = Inr (m, s') \<and> replies_have_msgid s' \<and> notifs s' = notifs s
       \<and> wire s' = wire s"
proof (induction q arbitrary: s)
  case Nil
  then show ?case by (simp add: replies_have_msgid_def)
next
  case (Cons c q)
  from Cons.prems obtain v where v: "lyxml_get_attr c ''message-id'' = Some v" by auto
  from Cons.prems have q: "list_all (\<lambda>cont. lyxml_get_attr cont ''message-id'' \<noteq> None) q" by simp
  show ?case
  proof (cases "strtoul v = msgid")
    case True
    with v q show ?thesis by (simp add: replies_have_msgid_def)
  next
    case False
    let ?s = "s\<lparr>replies := q,
                 logged := logged s @
                   [ERR ''Session %u: discarding a <rpc-reply> with an unexpected message-id %s.'' [Str v]],
                 freed := freed s @ [c]\<rparr>"
    from q have "list_all (\<lambda>cont. lyxml_get_attr cont ''message-id'' \<noteq> None) (replies ?s)" by simp
    from Cons.IH [OF q this] v False show ?thesis by simp
  qed
qed

lemma get_msg_wire_keeps_msgid:
  "replies_have_msgid s \<Longrightarrow> get_msg_wire s timeout msgid = (t, m, s') \<Longrightarrow> replies_have_msgid s'"
  by (auto simp: get_msg_wire_def nc_read_msg_poll_def replies_have_msgid_def
      split: list.splits wire_event.splits if_splits option.splits)

lemma get_msg_keeps_msgid:
  assumes "replies_have_msgid s"
  shows "\<exists>t m s'. get_msg E s timeout msgid = Inr (t, m, s') \<and> replies_have_msgid s'"
proof -
  obtain r elapsed where lock: "nc_timedlock E (lock_calls s) timeout = (r, elapsed)"
    by (cases "nc_timedlock E (lock_calls s) timeout")
  let ?s = "s\<lparr>lock_calls := Suc (lock_calls s)\<rparr>"
  let ?t = "if 0 < timeout then timeout - elapsed else timeout"
  from assms have inv: "replies_have_msgid ?s" by (simp add: replies_have_msgid_def)
  have wire: "\<exists>t m s'. get_msg_wire s1 ?t msgid = (t, m, s') \<and> replies_have_msgid s'"
    if "replies_have_msgid s1" for s1
    using that get_msg_wire_keeps_msgid [of s1 ?t msgid]
    by (cases "get_msg_wire s1 ?t msgid") auto
  consider (err) "r = - 1" | (busy) "r \<noteq> - 1" "r = 0"
    | (notif) "r \<noteq> - 1" "r \<noteq> 0" "msgid = 0" "notifs s \<noteq> []"
    | (scan) "r \<noteq> - 1" "r \<noteq> 0" "msgid \<noteq> 0" "replies s \<noteq> []"
    | (read0) "r \<noteq> - 1" "r \<noteq> 0" "msgid = 0" "notifs s = []"
    | (read1) "r \<noteq> - 1" "r \<noteq> 0" "msgid \<noteq> 0" "replies s = []"
    by blast
  then show ?thesis
  proof cases
    case err
    with lock inv show ?thesis by (simp add: get_msg_def Let_def)
  next
    case busy
    with lock inv show ?thesis by (simp add: get_msg_def Let_def)
  next
    case notif
    with lock assms show ?thesis by (simp add: get_msg_def Let_def replies_have_msgid_def)
  next
    case scan
    from assms have q: "list_all (\<lambda>cont. lyxml_get_attr cont ''message-id'' \<noteq> None) (replies s)"
      by (simp add: replies_have_msgid_def)
    then have "list_all (\<lambda>cont. lyxml_get_attr cont ''message-id'' \<noteq> None) (replies ?s)" by simp
    from scan_replies_keeps_msgid [OF q this, of msgid]
    obtain m s1 where s1: "scan_replies msgid (replies s) ?s = Inr (m, s1)" "replies_have_msgid s1"
      by blast
    show ?thesis
    proof (cases m)
      case None
      from wire [OF s1(2)] obtain t m' s' where
        "get_msg_wire s1 ?t msgid = (t, m', s')" "replies_have_msgid s'" by blast
      with lock scan s1 None show ?thesis by (simp add: get_msg_def Let_def)
    next
      case (Some cont)
      with lock scan s1 show ?thesis by (simp add: get_msg_def Let_def)
    qed
  next
    case read0
    from wire [OF inv] obtain t m' s' where
      "get_msg_wire ?s ?t msgid = (t, m', s')" "replies_have_msgid s'" by blast
    with lock read0 show ?thesis by (simp add: get_msg_def Let_def)
  next
    case read1
    from wire [OF inv] obtain t m' s' where
      "get_msg_wire ?s ?t msgid = (t, m', s')" "replies_have_msgid s'" by blast
    with lock read1 show ?thesis by (simp add: get_msg_def Let_def)
  qed
qed

text \<open>
  C10. Every container of the reply queue has a \<^verbatim>\<open>message-id\<close> attribute: the property
  holds of an empty queue, \<^verbatim>\<open>get_msg\<close> and \<^verbatim>\<open>nc_recv_reply\<close> keep it (a reply read from the
  transport is queued only after its attribute was found), and where it holds the queue
  scan never hands NULL to \<^verbatim>\<open>strtoul\<close>.
\<close>

theorem reply_queue_msgid_invariant:
  assumes "replies_have_msgid s"
  shows "(\<exists>t m s'. get_msg E s timeout msgid = Inr (t, m, s') \<and> replies_have_msgid s')
       \<and> nc_recv_reply E s rpc msgid timeout parseroptions \<noteq> Inl NullDeref
       \<and> (\<forall>t rpl s'. nc_recv_reply E s rpc msgid timeout parseroptions = Inr (t, rpl, s')
             \<longrightarrow> replies_have_msgid s')"
proof -
  from get_msg_keeps_msgid [OF assms, of E timeout msgid]
  obtain t m s1 where g: "get_msg E s timeout msgid = Inr (t, m, s1)" "replies_have_msgid s1"
    by blast
  from assms have a: "replies_have_msgid (s\<lparr>logged := l\<rparr>)" for l
    by (simp add: replies_have_msgid_def)
  from g(2) have b: "replies_have_msgid (s1\<lparr>logged := l, freed := f\<rparr>)" for l f
    by (simp add: replies_have_msgid_def)
  from g a b show ?thesis
    by (auto simp: nc_recv_reply_def Let_def split: if_splits option.splits prod.splits)
qed

text \<open>Without the invariant the scan does read a NULL attribute.\<close>

lemma strtoul_null_without_invariant:
  "get_msg example_env
     (example_session\<lparr>replies := [Elem ''rpc-reply'' (Some NC_NS_BASE) None [] []]\<rparr>) 1000 1
   = Inl NullDeref"
  by (simp add: get_msg_def example_env_def example_session_def lyxml_get_attr_def)

theorem reply_queue_msgid_invariant_witness:
  "replies_have_msgid (example_session\<lparr>replies := [reply_ok ''7'']\<rparr>)
   \<and> (\<exists>t m s'. get_msg example_env (example_session\<lparr>replies := [reply_ok ''7'']\<rparr>) 1000 7 = Inr (t, m, s')
         \<and> replies_have_msgid s')
   \<and> nc_recv_reply example_env (example_session\<lparr>replies := [reply_ok ''7'']\<rparr>) NC_RPC_LOCK 7 1000 []
       \<noteq> Inl NullDeref"
proof -
  have h: "replies_have_msgid (example_session\<lparr>replies := [reply_ok ''7'']\<rparr>)"
    by (simp add: replies_have_msgid_def example_session_def reply_ok_def lyxml_get_attr_def)
  from reply_queue_msgid_invariant [OF h, of example_env 1000 7 NC_RPC_LOCK "[]"] h
  show ?thesis by blast
qed

theorem get_msg_queue_scan_witness:
  "get_msg example_env
     (example_session\<lparr>replies := [reply_ok ''7'', reply_ok ''3'', reply_ok ''9'']\<rparr>) 1000 3 =
   Inr (NC_MSG_REPLY, Some (reply_ok ''3''),
        example_session\<lparr>lock_calls := 1, replies := [reply_ok ''9''],
          logged := [ERR ''Session %u: discarding a <rpc-reply> with an unexpected message-id %s.'' [Str ''7'']],
          freed := [reply_ok ''7'']\<rparr>)
   \<and> nc_recv_reply example_env
     (example_session\<lparr>replies := [reply_ok ''7'', reply_ok ''3'', reply_ok ''9'']\<rparr>) NC_RPC_LOCK 3 1000 [] =
   Inr (NC_MSG_REPLY, Some NC_RPL_OK,
        example_session\<lparr>lock_calls := 1, replies := [reply_ok ''9''],
          logged := [ERR ''Session %u: discarding a <rpc-reply> with an unexpected message-id %s.'' [Str ''7'']],
          freed := [reply_ok ''7'', reply_ok ''3'']\<rparr>)
   \<and> get_msg example_env (example_session\<lparr>replies := [reply_ok ''7'', reply_ok ''9'']\<rparr>) 1000 3 =
   Inr (NC_MSG_WOULDBLOCK, None,
        example_session\<lparr>lock_calls := 1, replies := [],
          logged := [ERR ''Session %u: discarding a <rpc-reply> with an unexpected message-id %s.'' [Str ''7''],
                     ERR ''Session %u: discarding a <rpc-reply> with an unexpected message-id %s.'' [Str ''9'']],
          freed := [reply_ok ''7'', reply_ok ''9'']\<rparr>)"
proof -
  have lock: "nc_timedlock example_env (lock_calls s) 1000 = (1, 0)" for s
    by (simp add: example_env_def)
  have other7: "other_msgid 3 (reply_ok ''7'')"
    by (simp add: other_msgid_def reply_ok_def lyxml_get_attr_def strtoul_eval)
  have other9: "other_msgid 3 (reply_ok ''9'')"
    by (simp add: other_msgid_def reply_ok_def lyxml_get_attr_def strtoul_eval)
  have has3: "has_msgid 3 (reply_ok ''3'')"
    by (simp add: has_msgid_def reply_ok_def lyxml_get_attr_def strtoul_eval)
  have d7: "discard_line (reply_ok ''7'') =
      ERR ''Session %u: discarding a <rpc-reply> with an unexpected message-id %s.'' [Str ''7'']"
    by (simp add: discard_line_def reply_ok_def lyxml_get_attr_def)
  have d9: "discard_line (reply_ok ''9'') =
      ERR ''Session %u: discarding a <rpc-reply> with an unexpected message-id %s.'' [Str ''9'']"
    by (simp add: discard_line_def reply_ok_def lyxml_get_attr_def)
  have pre1: "list_all (other_msgid 3) [reply_ok ''7'']" using other7 by simp
  have pre2: "list_all (other_msgid 3) [reply_ok ''7'', reply_ok ''9'']" using other7 other9 by simp
  have w: "get_msg_wire (example_session\<lparr>lock_calls := 1, replies := [], logged := l, freed := f\<rparr>) 1000 3
     = (NC_MSG_WOULDBLOCK, None, example_session\<lparr>lock_calls := 1, replies := [], logged := l, freed := f\<rparr>)" for l f
    by (simp add: get_msg_wire_def nc_read_msg_poll_def example_session_def)
  have p: "parse_reply example_env c (reply_ok ''3'') NC_RPC_LOCK [] = (Some NC_RPL_OK, [])" for c
    by (simp add: parse_reply_def reply_ok_def)
  note scan = get_msg_queue_scan [OF lock _ _ _ pre1,
      of "example_session\<lparr>replies := [reply_ok ''7'', reply_ok ''3'', reply_ok ''9'']\<rparr>"
      "reply_ok ''3''" "[reply_ok ''9'']" "[]" NC_RPC_LOCK]
  from scan has3 d7
  have 1: "get_msg example_env
     (example_session\<lparr>replies := [reply_ok ''7'', reply_ok ''3'', reply_ok ''9'']\<rparr>) 1000 3 =
   Inr (NC_MSG_REPLY, Some (reply_ok ''3''),
        example_session\<lparr>lock_calls := 1, replies := [reply_ok ''9''],
          logged := [ERR ''Session %u: discarding a <rpc-reply> with an unexpected message-id %s.'' [Str ''7'']],
          freed := [reply_ok ''7'']\<rparr>)"
    by (simp add: example_session_def)
  from scan has3 d7 p
  have 2: "nc_recv_reply example_env
     (example_session\<lparr>replies := [reply_ok ''7'', reply_ok ''3'', reply_ok ''9'']\<rparr>) NC_RPC_LOCK 3 1000 [] =
   Inr (NC_MSG_REPLY, Some NC_RPL_OK,
        example_session\<lparr>lock_calls := 1, replies := [reply_ok ''9''],
          logged := [ERR ''Session %u: discarding a <rpc-reply> with an unexpected message-id %s.'' [Str ''7'']],
          freed := [reply_ok ''7'', reply_ok ''3'']\<rparr>)"
    by (simp add: example_session_def)
  from get_msg_queue_scan [OF lock _ _ _ pre2, of "example_session\<lparr>replies := [reply_ok ''7'', reply_ok ''9'']\<rparr>"] d7 d9 w
  have 3: "get_msg example_env (example_session\<lparr>replies := [reply_ok ''7'', reply_ok ''9'']\<rparr>) 1000 3 =
   Inr (NC_MSG_WOULDBLOCK, None,
        example_session\<lparr>lock_calls := 1, replies := [],
          logged := [ERR ''Session %u: discarding a <rpc-reply> with an unexpected message-id %s.'' [Str ''7''],
                     ERR ''Session %u: discarding a <rpc-reply> with an unexpected message-id %s.'' [Str ''9'']],
          freed := [reply_ok ''7'', reply_ok ''9'']\<rparr>)"
    by (simp add: example_session_def)
  from 1 2 3 show ?thesis by blast
qed

text \<open>
  C1, at an input where the code departs from it. The reply queue is empty and the
  transport delivers a reply with \<^verbatim>\<open>message-id="2"\<close>; \<^verbatim>\<open>nc_recv_reply\<close>, asked for the reply
  to message 1, returns \<^verbatim>\<open>NC_MSG_REPLY\<close> with that reply parsed: a reply read from the
  transport is not compared with \<open>msgid\<close>, as a queued one is.
\<close>

theorem recv_reply_delivers_other_msgid:
  "nc_recv_reply example_env (example_session\<lparr>wire := [Reply_in (reply_ok ''2'')]\<rparr>) NC_RPC_LOCK 1 1000 []
     = Inr (NC_MSG_REPLY, Some NC_RPL_OK, example_session\<lparr>lock_calls := 1, freed := [reply_ok ''2'']\<rparr>)
   \<and> lyxml_get_attr (reply_ok ''2'') ''message-id'' = Some ''2''
   \<and> strtoul ''2'' \<noteq> 1"
  by (simp add: nc_recv_reply_def get_msg_def get_msg_wire_def nc_read_msg_poll_def parse_reply_def
      example_env_def example_session_def reply_ok_def NC_NS_BASE_def lyxml_get_attr_def strtoul_eval)

theorem recv_reply_delivers_other_msgid_witness:
  "\<exists>xml v rpl s'. wire (example_session\<lparr>wire := [Reply_in (reply_ok ''2'')]\<rparr>) = [Reply_in xml]
     \<and> lyxml_get_attr xml ''message-id'' = Some v \<and> strtoul v \<noteq> 1
     \<and> nc_recv_reply example_env (example_session\<lparr>wire := [Reply_in (reply_ok ''2'')]\<rparr>)
           NC_RPC_LOCK 1 1000 [] = Inr (NC_MSG_REPLY, Some rpl, s')"
  using recv_reply_delivers_other_msgid by (simp add: example_session_def)

text \<open>
  C2 as stated fails: after a reply is parked during a wait for a notification,
  \<^verbatim>\<open>get_msg\<close> returns \<^verbatim>\<open>NC_MSG_REPLY\<close> at once; the notification that follows stays unread
  on the transport. The same holds with the two kinds exchanged.
\<close>

theorem get_msg_returns_after_parking:
  "get_msg example_env (example_session\<lparr>wire := [Reply_in (reply_ok ''5''), Notif_in example_notif]\<rparr>) 1000 0
     = Inr (NC_MSG_REPLY, None,
            example_session\<lparr>lock_calls := 1, replies := [reply_ok ''5''], wire := [Notif_in example_notif]\<rparr>)
   \<and> get_msg example_env (example_session\<lparr>wire := [Notif_in example_notif, Reply_in (reply_ok ''5'')]\<rparr>) 1000 5
     = Inr (NC_MSG_NOTIF, None,
            example_session\<lparr>lock_calls := 1, notifs := [example_notif], wire := [Reply_in (reply_ok ''5'')]\<rparr>)"
  by (simp add: get_msg_def get_msg_wire_def nc_read_msg_poll_def
      example_env_def example_session_def reply_ok_def lyxml_get_attr_def)

text \<open>
  C2, amended. With the lock taken, a reply with a \<^verbatim>\<open>message-id\<close> read while a notification
  is wanted is appended at the tail of the reply queue, and a notification read while a
  reply is wanted (no queued reply matching) is appended at the tail of the notification
  queue; in both cases \<^verbatim>\<open>get_msg\<close> returns the type of the message read, sets no message
  for the caller and reads nothing more.
\<close>

theorem get_msg_parks_unwanted:
  assumes lock: "nc_timedlock E (lock_calls s) timeout = (r, elapsed)" "r \<noteq> - 1" "r \<noteq> 0"
    and wire: "wire s = ev # w"
  shows "(msgid = 0 \<and> notifs s = [] \<and> ev = Reply_in xml \<and> lyxml_get_attr xml ''message-id'' \<noteq> None \<longrightarrow>
            get_msg E s timeout msgid =
              Inr (NC_MSG_REPLY, None,
                   s\<lparr>lock_calls := Suc (lock_calls s), replies := replies s @ [xml], wire := w\<rparr>))
       \<and> (msgid \<noteq> 0 \<and> list_all (other_msgid msgid) (replies s) \<and> ev = Notif_in xml \<longrightarrow>
            get_msg E s timeout msgid =
              Inr (NC_MSG_NOTIF, None,
                   s\<lparr>lock_calls := Suc (lock_calls s), replies := [],
                      logged := logged s @ map discard_line (replies s),
                      freed := freed s @ replies s,
                      notifs := notifs s @ [xml], wire := w\<rparr>))"
proof (intro conjI impI)
  assume "msgid = 0 \<and> notifs s = [] \<and> ev = Reply_in xml \<and> lyxml_get_attr xml ''message-id'' \<noteq> None"
  with lock wire show "get_msg E s timeout msgid =
              Inr (NC_MSG_REPLY, None,
                   s\<lparr>lock_calls := Suc (lock_calls s), replies := replies s @ [xml], wire := w\<rparr>)"
    by (auto simp: get_msg_def Let_def get_msg_wire_def nc_read_msg_poll_def)
next
  assume a: "msgid \<noteq> 0 \<and> list_all (other_msgid msgid) (replies s) \<and> ev = Notif_in xml"
  let ?s = "s\<lparr>lock_calls := Suc (lock_calls s)\<rparr>"
  from a have "scan_replies msgid (replies s) ?s =
     Inr (None, ?s\<lparr>replies := [], logged := logged ?s @ map discard_line (replies s),
                     freed := freed ?s @ replies s\<rparr>)"
    by (intro scan_replies_none) simp
  with a lock wire show "get_msg E s timeout msgid =
              Inr (NC_MSG_NOTIF, None,
                   s\<lparr>lock_calls := Suc (lock_calls s), replies := [],
                      logged := logged s @ map discard_line (replies s),
                      freed := freed s @ replies s,
                      notifs := notifs s @ [xml], wire := w\<rparr>)"
    by (cases "replies s") (simp_all add: get_msg_def Let_def get_msg_wire_def nc_read_msg_poll_def)
qed

theorem get_msg_parks_unwanted_witness:
  "get_msg example_env (example_session\<lparr>wire := [Reply_in (reply_ok ''5''), Notif_in example_notif]\<rparr>) 1000 0
     = Inr (NC_MSG_REPLY, None,
            example_session\<lparr>lock_calls := 1, replies := [reply_ok ''5''], wire := [Notif_in example_notif]\<rparr>)
   \<and> get_msg example_env
       (example_session\<lparr>replies := [reply_ok ''7''], wire := [Notif_in example_notif, Reply_in (reply_ok ''5'')]\<rparr>)
       1000 5
     = Inr (NC_MSG_NOTIF, None,
            example_session\<lparr>lock_calls := 1, replies := [],
              logged := [ERR ''Session %u: discarding a <rpc-reply> with an unexpected message-id %s.'' [Str ''7'']],
              freed := [reply_ok ''7''],
              notifs := [example_notif], wire := [Reply_in (reply_ok ''5'')]\<rparr>)"
proof -
  have lock: "nc_timedlock example_env (lock_calls s) 1000 = (1, 0)" for s
    by (simp add: example_env_def)
  have other7: "other_msgid 5 (reply_ok ''7'')"
    by (simp add: other_msgid_def reply_ok_def lyxml_get_attr_def strtoul_eval)
  have d7: "discard_line (reply_ok ''7'') =
      ERR ''Session %u: discarding a <rpc-reply> with an unexpected message-id %s.'' [Str ''7'']"
    by (simp add: discard_line_def reply_ok_def lyxml_get_attr_def)
  have attr: "lyxml_get_attr (reply_ok ''5'') ''message-id'' \<noteq> None"
    by (simp add: reply_ok_def lyxml_get_attr_def)
  from get_msg_parks_unwanted [OF lock, of "example_session\<lparr>wire := [Reply_in (reply_ok ''5''), Notif_in example_notif]\<rparr>"
      "Reply_in (reply_ok ''5'')" "[Notif_in example_notif]" 0 "reply_ok ''5''"] attr
  have 1: "get_msg example_env (example_session\<lparr>wire := [Reply_in (reply_ok ''5''), Notif_in example_notif]\<rparr>) 1000 0
     = Inr (NC_MSG_REPLY, None,
            example_session\<lparr>lock_calls := 1, replies := [reply_ok ''5''], wire := [Notif_in example_notif]\<rparr>)"
    by (simp add: example_session_def)
  from get_msg_parks_unwanted [OF lock, of "example_session\<lparr>replies := [reply_ok ''7''], wire := [Notif_in example_notif, Reply_in (reply_ok ''5'')]\<rparr>"
      "Notif_in example_notif" "[Reply_in (reply_ok ''5'')]" 5 example_notif] other7 d7
  have 2: "get_msg example_env
       (example_session\<lparr>replies := [reply_ok ''7''], wire := [Notif_in example_notif, Reply_in (reply_ok ''5'')]\<rparr>)
       1000 5
     = Inr (NC_MSG_NOTIF, None,
            example_session\<lparr>lock_calls := 1, replies := [],
              logged := [ERR ''Session %u: discarding a <rpc-reply> with an unexpected message-id %s.'' [Str ''7'']],
              freed := [reply_ok ''7''],
              notifs := [example_notif], wire := [Reply_in (reply_ok ''5'')]\<rparr>)"
    by (simp add: example_session_def)
  from 1 2 show ?thesis by blast
qed

section \<open>Properties of the reply parser\<close>

lemma error_info_child_tag: "err_tag (fst (error_info_child info st)) = err_tag (fst st)"
  by (cases st) (simp add: error_info_child_def split: option.splits)

lemma fold_error_info_child_tag: "err_tag (fst (fold error_info_child infos st)) = err_tag (fst st)"
  by (induction infos arbitrary: st) (simp_all add: error_info_child_tag)

lemma other_children_tag:
  "err_tag (fst (error_type_child iter st)) = err_tag (fst st)"
  "err_tag (fst (error_severity_child iter st)) = err_tag (fst st)"
  "err_tag (fst (error_app_tag_child iter st)) = err_tag (fst st)"
  "err_tag (fst (error_path_child iter st)) = err_tag (fst st)"
  "err_tag (fst (error_message_child iter st)) = err_tag (fst st)"
  by (cases st; simp add: error_type_child_def error_severity_child_def error_app_tag_child_def
        error_path_child_def error_message_child_def)+

lemma error_tag_child_tag_known:
  "tag_known (fst st) \<Longrightarrow> tag_known (fst (error_tag_child iter st))"
  by (cases st) (auto simp: error_tag_child_def tag_known_def content_or_empty_def split: option.splits)

lemma rpc_error_child_tag_known:
  assumes k: "tag_known (fst st)"
  shows "tag_known (fst (rpc_error_child iter st))"
proof -
  have same: "tag_known (fst x)" if "err_tag (fst x) = err_tag (fst st)" for x :: "nc_err \<times> log_msg list"
    using k that by (simp add: tag_known_def)
  show ?thesis
    by (simp add: rpc_error_child_def k same other_children_tag fold_error_info_child_tag
        error_tag_child_tag_known [OF k] split: option.split)
qed

lemma fold_rpc_error_child_tag_known:
  "tag_known (fst st) \<Longrightarrow> tag_known (fst (fold rpc_error_child iters st))"
  by (induction iters arbitrary: st) (simp_all add: rpc_error_child_tag_known)

lemma parse_rpc_error_tag_known:
  "tag_known err \<Longrightarrow> tag_known (fst (parse_rpc_error ctx xml err))"
  by (simp add: parse_rpc_error_def fold_rpc_error_child_tag_known)

lemma tag_known_calloc: "tag_known nc_err_calloc"
  by (simp add: tag_known_def nc_err_calloc_def)

lemma error_tags_count: "distinct error_tags \<and> length error_tags = 19"
  by (simp add: error_tags_def)

lemma rpc_error_mismatch_None:
  "rpc_error_mismatch xs = None \<longleftrightarrow> list_all (is_base ''rpc-error'') xs"
  by (induction xs) (auto simp: is_base_def split: option.splits)

lemma parse_reply_data_not_error:
  "fst (parse_reply_data E ctx xml first rpc parseroptions) \<noteq> Some (NC_RPL_ERROR errs)"
  by (cases rpc) (auto simp: parse_reply_data_def Let_def split: option.splits nc_rpc_content.splits)

lemma parse_reply_errors:
  assumes "parse_reply E ctx xml rpc parseroptions = (Some (NC_RPL_ERROR errs), lines)"
  shows "errs = map (\<lambda>iter. fst (parse_rpc_error ctx iter nc_err_calloc)) (elem_child xml)
         \<and> elem_child xml \<noteq> [] \<and> list_all (is_base ''rpc-error'') (elem_child xml)"
proof (cases "elem_child xml")
  case Nil
  with assms show ?thesis by (simp add: parse_reply_def)
next
  case (Cons first rest)
  show ?thesis
  proof (cases "elem_name first = ''rpc-error'' \<and> elem_ns first = Some NC_NS_BASE")
    case True
    with assms Cons have m: "rpc_error_mismatch (first # rest) = None"
      by (auto simp: parse_reply_def split: option.splits)
    from m True assms Cons
    have e: "errs = map (\<lambda>iter. fst (parse_rpc_error ctx iter nc_err_calloc)) (first # rest)"
      by (simp add: parse_reply_def Let_def comp_def)
    from m have "list_all (is_base ''rpc-error'') (first # rest)"
      by (simp only: rpc_error_mismatch_None)
    with e Cons show ?thesis by simp
  next
    case False
    with assms Cons parse_reply_data_not_error [of E ctx xml first rpc parseroptions errs]
    show ?thesis by (auto simp: parse_reply_def split: if_splits list.splits)
  qed
qed

text \<open>
  C8, amended. The tag of every error record that \<^verbatim>\<open>parse_rpc_error\<close> fills from a fresh
  record, and of every record of an error reply that \<^verbatim>\<open>parse_reply\<close> returns, is absent or
  one of the known tags; an \<^verbatim>\<open><error-tag>\<close> child of the base namespace whose content is missing
  or not a known tag leaves the record as it was and logs a warning. The known tags of the
  source are 19 distinct strings.
\<close>

theorem rpc_error_tag_closed:
  "tag_known (fst (parse_rpc_error ctx xml nc_err_calloc))
   \<and> (\<forall>errs lines. parse_reply E ctx reply rpc parseroptions = (Some (NC_RPL_ERROR errs), lines)
          \<longrightarrow> list_all tag_known errs)
   \<and> (is_base ''error-tag'' iter \<and> (elem_content iter = None \<or> content_or_empty iter \<notin> set error_tags)
          \<longrightarrow> rpc_error_child iter (err, lg) =
                (err, lg @ [WRN ''<rpc-error> <error-tag> unknown value %s.'' [Str (content_or_empty iter)]]))
   \<and> card (set error_tags) = 19"
proof (intro conjI allI impI)
  show "tag_known (fst (parse_rpc_error ctx xml nc_err_calloc))"
    by (rule parse_rpc_error_tag_known [OF tag_known_calloc])
next
  fix errs lines
  assume "parse_reply E ctx reply rpc parseroptions = (Some (NC_RPL_ERROR errs), lines)"
  from parse_reply_errors [OF this]
  show "list_all tag_known errs"
    by (simp add: list_all_iff parse_rpc_error_tag_known [OF tag_known_calloc])
next
  assume "is_base ''error-tag'' iter \<and> (elem_content iter = None \<or> content_or_empty iter \<notin> set error_tags)"
  then show "rpc_error_child iter (err, lg) =
                (err, lg @ [WRN ''<rpc-error> <error-tag> unknown value %s.'' [Str (content_or_empty iter)]])"
    by (auto simp: rpc_error_child_def is_base_def error_tag_child_def)
next
  from error_tags_count show "card (set error_tags) = 19"
    by (simp add: distinct_card)
qed

lemma known_tag_is_stored:
  assumes "t \<in> set error_tags"
  shows "err_tag (fst (parse_rpc_error ctx (rpc_error_with_tag t) nc_err_calloc)) = Some t"
  using assms
  by (simp add: parse_rpc_error_def rpc_error_with_tag_def rpc_error_child_def error_tag_child_def
      content_or_empty_def nc_err_calloc_def)

text \<open>
  C8 as stated speaks of 18 known tags. No set of 18 strings holds every tag the parser
  stores: each of the 19 strings of \<open>error_tags\<close> is stored when it is the content of the
  \<^verbatim>\<open><error-tag>\<close>.
\<close>

theorem error_tags_not_eighteen:
  "\<not> (\<exists>K. card K = 18 \<and>
         (\<forall>xml t. err_tag (fst (parse_rpc_error (session_ctx example_session) xml nc_err_calloc)) = Some t
            \<longrightarrow> t \<in> K))"
proof
  assume "\<exists>K. card K = 18 \<and>
         (\<forall>xml t. err_tag (fst (parse_rpc_error (session_ctx example_session) xml nc_err_calloc)) = Some t
            \<longrightarrow> t \<in> K)"
  then obtain K where K: "card K = 18"
    and all: "\<And>xml t. err_tag (fst (parse_rpc_error (session_ctx example_session) xml nc_err_calloc)) = Some t
            \<Longrightarrow> t \<in> K"
    by blast
  from K have fin: "finite K" by (simp add: card_ge_0_finite)
  have "set error_tags \<subseteq> K"
    using all known_tag_is_stored by blast
  with fin have "card (set error_tags) \<le> card K" by (rule card_mono)
  with K error_tags_count show False by (simp add: distinct_card)
qed

theorem rpc_error_tag_closed_witness:
  "tag_known (fst (parse_rpc_error (session_ctx example_session) example_rpc_error nc_err_calloc))
   \<and> parse_rpc_error (session_ctx example_session) example_rpc_error nc_err_calloc =
       (nc_err_calloc\<lparr>err_type := Some ''application'', err_tag := Some ''data-missing'',
                       err_severity := Some ''error'', err_path := Some ''/a/b''\<rparr>,
        [WRN ''<rpc-error> <error-tag> unknown value %s.'' [Str ''no-such-tag'']])
   \<and> rpc_error_child (Elem ''error-tag'' (Some NC_NS_BASE) (Some ''no-such-tag'') [] []) (nc_err_calloc, []) =
       (nc_err_calloc, [WRN ''<rpc-error> <error-tag> unknown value %s.'' [Str ''no-such-tag'']])"
proof -
  have unknown: "is_base ''error-tag'' (Elem ''error-tag'' (Some NC_NS_BASE) (Some ''no-such-tag'') [] [])
      \<and> (elem_content (Elem ''error-tag'' (Some NC_NS_BASE) (Some ''no-such-tag'') [] []) = None
          \<or> content_or_empty (Elem ''error-tag'' (Some NC_NS_BASE) (Some ''no-such-tag'') [] []) \<notin> set error_tags)"
    by (simp add: is_base_def content_or_empty_def error_tags_def)
  have run: "parse_rpc_error (session_ctx example_session) example_rpc_error nc_err_calloc =
       (nc_err_calloc\<lparr>err_type := Some ''application'', err_tag := Some ''data-missing'',
                       err_severity := Some ''error'', err_path := Some ''/a/b''\<rparr>,
        [WRN ''<rpc-error> <error-tag> unknown value %s.'' [Str ''no-such-tag'']])"
    by (simp add: parse_rpc_error_def example_rpc_error_def rpc_error_child_def error_tag_child_def
        error_type_child_def error_severity_child_def error_path_child_def
        content_or_empty_def nc_err_calloc_def NC_NS_BASE_def error_tags_def error_types_def
        error_severities_def)
  from rpc_error_tag_closed [of "session_ctx example_session" example_rpc_error example_env
      example_rpc_error NC_RPC_LOCK "[]"
      "Elem ''error-tag'' (Some NC_NS_BASE) (Some ''no-such-tag'') [] []" nc_err_calloc "[]"]
    unknown run
  show ?thesis by (simp add: content_or_empty_def)
qed

text \<open>
  C9. \<^verbatim>\<open>parse_reply\<close> returns NULL, after logging one error, for an \<^verbatim>\<open><rpc-reply>\<close> with no
  child, for one whose first child is an \<^verbatim>\<open><rpc-error>\<close> of the base namespace followed by a child
  that is not, and for one whose first child is an \<^verbatim>\<open><ok>\<close> of the base namespace followed by any
  child.
\<close>

theorem parse_reply_malformed:
  "(elem_child xml = [] \<longrightarrow> (\<exists>line. parse_reply E ctx xml rpc parseroptions = (None, [line])))
   \<and> (elem_child xml = first # rest \<and> is_base ''rpc-error'' first
        \<and> \<not> list_all (is_base ''rpc-error'') rest
      \<longrightarrow> (\<exists>line. parse_reply E ctx xml rpc parseroptions = (None, [line])))
   \<and> (elem_child xml = first # rest \<and> is_base ''ok'' first \<and> rest \<noteq> []
      \<longrightarrow> (\<exists>line. parse_reply E ctx xml rpc parseroptions = (None, [line])))"
proof (intro conjI impI)
  assume "elem_child xml = []"
  then show "\<exists>line. parse_reply E ctx xml rpc parseroptions = (None, [line])"
    by (simp add: parse_reply_def)
next
  assume a: "elem_child xml = first # rest \<and> is_base ''rpc-error'' first
        \<and> \<not> list_all (is_base ''rpc-error'') rest"
  then have "rpc_error_mismatch (first # rest) \<noteq> None"
    using rpc_error_mismatch_None [of "first # rest"] by simp
  then obtain line where "rpc_error_mismatch (first # rest) = Some line" by blast
  with a show "\<exists>line. parse_reply E ctx xml rpc parseroptions = (None, [line])"
    by (simp add: parse_reply_def is_base_def)
next
  assume a: "elem_child xml = first # rest \<and> is_base ''ok'' first \<and> rest \<noteq> []"
  then obtain nxt rest' where "rest = nxt # rest'" by (cases rest) auto
  with a show "\<exists>line. parse_reply E ctx xml rpc parseroptions = (None, [line])"
    by (simp add: parse_reply_def is_base_def)
qed

theorem parse_reply_malformed_witness:
  "parse_reply example_env (session_ctx example_session)
      (Elem ''rpc-reply'' (Some NC_NS_BASE) None [(''message-id'', ''1'')] []) NC_RPC_LOCK []
     = (None, [ERR ''An empty <rpc-reply>.'' []])
   \<and> fst (parse_reply example_env (session_ctx example_session)
      (Elem ''rpc-reply'' (Some NC_NS_BASE) None [(''message-id'', ''1'')]
         [base_elem ''rpc-error'', base_elem ''ok'']) NC_RPC_LOCK []) = None
   \<and> fst (parse_reply example_env (session_ctx example_session)
      (Elem ''rpc-reply'' (Some NC_NS_BASE) None [(''message-id'', ''1'')]
         [base_elem ''ok'', base_elem ''ok'']) NC_RPC_LOCK []) = None"
proof -
  have b: "is_base ''rpc-error'' (base_elem ''rpc-error'')" "is_base ''ok'' (base_elem ''ok'')"
    "\<not> list_all (is_base ''rpc-error'') [base_elem ''ok'']"
    by (simp_all add: is_base_def base_elem_def)
  from parse_reply_malformed [of "Elem ''rpc-reply'' (Some NC_NS_BASE) None [(''message-id'', ''1'')] []"
      example_env "session_ctx example_session" NC_RPC_LOCK "[]"]
  have 1: "parse_reply example_env (session_ctx example_session)
      (Elem ''rpc-reply'' (Some NC_NS_BASE) None [(''message-id'', ''1'')] []) NC_RPC_LOCK []
     = (None, [ERR ''An empty <rpc-reply>.'' []])"
    by (simp add: parse_reply_def)
  from parse_reply_malformed [of "Elem ''rpc-reply'' (Some NC_NS_BASE) None [(''message-id'', ''1'')]
         [base_elem ''rpc-error'', base_elem ''ok'']"
      example_env "session_ctx example_session" NC_RPC_LOCK "[]" "base_elem ''rpc-error''" "[base_elem ''ok'']"] b
  have 2: "fst (parse_reply example_env (session_ctx example_session)
      (Elem ''rpc-reply'' (Some NC_NS_BASE) None [(''message-id'', ''1'')]
         [base_elem ''rpc-error'', base_elem ''ok'']) NC_RPC_LOCK []) = None"
    by auto
  from parse_reply_malformed [of "Elem ''rpc-reply'' (Some NC_NS_BASE) None [(''message-id'', ''1'')]
         [base_elem ''ok'', base_elem ''ok'']"
      example_env "session_ctx example_session" NC_RPC_LOCK "[]" "base_elem ''ok''" "[base_elem ''ok'']"] b
  have 3: "fst (parse_reply example_env (session_ctx example_session)
      (Elem ''rpc-reply'' (Some NC_NS_BASE) None [(''message-id'', ''1'')]
         [base_elem ''ok'', base_elem ''ok'']) NC_RPC_LOCK []) = None"
    by auto
  from 1 2 3 show ?thesis by blast
qed

section \<open>Properties of the schema context loader\<close>

lemma first_two: "take n r = p \<Longrightarrow> 2 \<le> n \<Longrightarrow> take 2 r = take 2 p"
  by (metis min.absorb1 take_take)

lemma capability_features:
  "(capability_feature cpblt = Some f \<longleftrightarrow>
      take 35 cpblt = ''urn:ietf:params:netconf:capability:'' \<and>
      (f = ''writable-running'' \<and> take 16 (drop 35 cpblt) = ''writable-running''
       \<or> f = ''candidate'' \<and> take 9 (drop 35 cpblt) = ''candidate''
       \<or> f = ''confirmed-commit'' \<and> drop 35 cpblt = ''confirmed-commit:1.1''
       \<or> f = ''rollback-on-error'' \<and> take 17 (drop 35 cpblt) = ''rollback-on-error''
       \<or> f = ''validate'' \<and> drop 35 cpblt = ''validate:1.1''
       \<or> f = ''startup'' \<and> take 7 (drop 35 cpblt) = ''startup''
       \<or> f = ''url'' \<and> take 3 (drop 35 cpblt) = ''url''
       \<or> f = ''xpath'' \<and> take 5 (drop 35 cpblt) = ''xpath''))"
proof -
  define r where "r = drop 35 cpblt"
  define k where "k = take 2 r"
  define P where "P \<longleftrightarrow> take 35 cpblt = ''urn:ietf:params:netconf:capability:''"
  define A1 where "A1 \<longleftrightarrow> take 16 r = ''writable-running''"
  define A2 where "A2 \<longleftrightarrow> take 9 r = ''candidate''"
  define A3 where "A3 \<longleftrightarrow> r = ''confirmed-commit:1.1''"
  define A4 where "A4 \<longleftrightarrow> take 17 r = ''rollback-on-error''"
  define A5 where "A5 \<longleftrightarrow> r = ''validate:1.1''"
  define A6 where "A6 \<longleftrightarrow> take 7 r = ''startup''"
  define A7 where "A7 \<longleftrightarrow> take 3 r = ''url''"
  define A8 where "A8 \<longleftrightarrow> take 5 r = ''xpath''"
  have keys: "A1 \<Longrightarrow> k = ''wr''" "A2 \<Longrightarrow> k = ''ca''" "A3 \<Longrightarrow> k = ''co''" "A4 \<Longrightarrow> k = ''ro''"
    "A5 \<Longrightarrow> k = ''va''" "A6 \<Longrightarrow> k = ''st''" "A7 \<Longrightarrow> k = ''ur''" "A8 \<Longrightarrow> k = ''xp''"
    unfolding A1_def A2_def A3_def A4_def A5_def A6_def A7_def A8_def k_def
    by (simp_all add: first_two [of _ r])
  have cf: "capability_feature cpblt =
      (if P then
         if A1 then Some ''writable-running''
         else if A2 then Some ''candidate''
         else if A3 then Some ''confirmed-commit''
         else if A4 then Some ''rollback-on-error''
         else if A5 then Some ''validate''
         else if A6 then Some ''startup''
         else if A7 then Some ''url''
         else if A8 then Some ''xpath''
         else None
       else None)"
    unfolding A1_def A2_def A3_def A4_def A5_def A6_def A7_def A8_def P_def r_def
    by (simp add: capability_feature_def strncmp_eq_def Let_def)
  have excl: "A2 \<Longrightarrow> \<not> A1" "A3 \<Longrightarrow> \<not> A1" "A4 \<Longrightarrow> \<not> A1" "A5 \<Longrightarrow> \<not> A1" "A6 \<Longrightarrow> \<not> A1"
    "A7 \<Longrightarrow> \<not> A1" "A8 \<Longrightarrow> \<not> A1" "A3 \<Longrightarrow> \<not> A2" "A4 \<Longrightarrow> \<not> A2" "A5 \<Longrightarrow> \<not> A2"
    "A6 \<Longrightarrow> \<not> A2" "A7 \<Longrightarrow> \<not> A2" "A8 \<Longrightarrow> \<not> A2" "A4 \<Longrightarrow> \<not> A3" "A5 \<Longrightarrow> \<not> A3"
    "A6 \<Longrightarrow> \<not> A3" "A7 \<Longrightarrow> \<not> A3" "A8 \<Longrightarrow> \<not> A3" "A5 \<Longrightarrow> \<not> A4" "A6 \<Longrightarrow> \<not> A4"
    "A7 \<Longrightarrow> \<not> A4" "A8 \<Longrightarrow> \<not> A4" "A6 \<Longrightarrow> \<not> A5" "A7 \<Longrightarrow> \<not> A5" "A8 \<Longrightarrow> \<not> A5"
    "A7 \<Longrightarrow> \<not> A6" "A8 \<Longrightarrow> \<not> A6" "A8 \<Longrightarrow> \<not> A7"
    using keys by auto
  have "(capability_feature cpblt = Some f) \<longleftrightarrow>
      P \<and> (f = ''writable-running'' \<and> A1 \<or> f = ''candidate'' \<and> A2 \<or> f = ''confirmed-commit'' \<and> A3
           \<or> f = ''rollback-on-error'' \<and> A4 \<or> f = ''validate'' \<and> A5
           \<or> f = ''startup'' \<and> A6 \<or> f = ''url'' \<and> A7 \<or> f = ''xpath'' \<and> A8)"
  proof
    assume "capability_feature cpblt = Some f"
    then show "P \<and> (f = ''writable-running'' \<and> A1 \<or> f = ''candidate'' \<and> A2 \<or> f = ''confirmed-commit'' \<and> A3
           \<or> f = ''rollback-on-error'' \<and> A4 \<or> f = ''validate'' \<and> A5
           \<or> f = ''startup'' \<and> A6 \<or> f = ''url'' \<and> A7 \<or> f = ''xpath'' \<and> A8)"
      unfolding cf by (simp split: if_splits)
  next
    assume "P \<and> (f = ''writable-running'' \<and> A1 \<or> f = ''candidate'' \<and> A2 \<or> f = ''confirmed-commit'' \<and> A3
           \<or> f = ''rollback-on-error'' \<and> A4 \<or> f = ''validate'' \<and> A5
           \<or> f = ''startup'' \<and> A6 \<or> f = ''url'' \<and> A7 \<or> f = ''xpath'' \<and> A8)"
    then show "capability_feature cpblt = Some f"
      unfolding cf by (elim conjE disjE) (simp_all add: excl)
  qed
  then show ?thesis
    unfolding A1_def A2_def A3_def A4_def A5_def A6_def A7_def A8_def P_def r_def .
qed

lemma same_module_refl: "same_module m m"
  by (simp add: same_module_def)

lemma present_enable:
  "list_ex (same_module m) (ctx_modules (lys_features_enable ctx m' g)) =
   list_ex (same_module m) (ctx_modules ctx)"
proof -
  have "list_ex (same_module m)
          (map (\<lambda>x. if same_module m' x then x\<lparr>mod_features := mod_features x @ [g]\<rparr> else x) xs) =
        list_ex (same_module m) xs" for xs
    by (induction xs) (simp_all add: same_module_def)
  then show ?thesis by (simp add: lys_features_enable_def)
qed

lemma feature_enabled_enable:
  "feature_enabled (lys_features_enable ctx m g) m f \<longleftrightarrow>
     feature_enabled ctx m f \<or> (f = g \<and> list_ex (same_module m) (ctx_modules ctx))"
proof -
  have "list_ex (\<lambda>x. same_module m x \<and> f \<in> set (mod_features x))
          (map (\<lambda>x. if same_module m x then x\<lparr>mod_features := mod_features x @ [g]\<rparr> else x) xs) \<longleftrightarrow>
        list_ex (\<lambda>x. same_module m x \<and> f \<in> set (mod_features x)) xs
        \<or> (f = g \<and> list_ex (same_module m) xs)" for xs
    by (induction xs) (auto simp: same_module_def)
  then show ?thesis by (simp add: feature_enabled_def lys_features_enable_def)
qed

lemma fold_enable_features:
  "list_ex (same_module m) (ctx_modules ctx) \<Longrightarrow>
   feature_enabled
     (fold (\<lambda>cpblt c. case capability_feature cpblt of None \<Rightarrow> c
                        | Some f \<Rightarrow> lys_features_enable c m f) cpblts ctx) m g
   \<longleftrightarrow> feature_enabled ctx m g \<or> (\<exists>cpblt\<in>set cpblts. capability_feature cpblt = Some g)"
proof (induction cpblts arbitrary: ctx)
  case Nil
  then show ?case by simp
next
  case (Cons c cs)
  show ?case
  proof (cases "capability_feature c")
    case None
    with Cons show ?thesis by simp
  next
    case (Some f)
    from Cons.prems have "list_ex (same_module m) (ctx_modules (lys_features_enable ctx m f))"
      by (simp add: present_enable)
    from Cons.IH [OF this] Some Cons.prems show ?thesis
      by (auto simp: feature_enabled_enable)
  qed
qed

lemma load_ietf_netconf_present:
  assumes "load_ietf_netconf E ctx = (Some m, ctx1)"
  shows "list_ex (same_module m) (ctx_modules ctx1)"
proof -
  have "m \<in> set (ctx_modules ctx1)"
    using assms
    by (auto simp: load_ietf_netconf_def ly_ctx_get_module_def ly_ctx_load_module_def
        lys_parse_path_ctx_def find_Some_iff split: option.splits dest: nth_mem)
  then show ?thesis
    using same_module_refl by (auto simp: list_ex_iff)
qed

text \<open>
  C5. A capability makes \<^verbatim>\<open>ctx_check_and_load_ietf_netconf\<close> enable the feature \<open>f\<close> exactly
  when it starts with \<^verbatim>\<open>urn:ietf:params:netconf:capability:\<close> and goes on with the name of
  \<open>f\<close>, where \<^verbatim>\<open>confirmed-commit\<close> and \<^verbatim>\<open>validate\<close> need the rest to be exactly
  \<^verbatim>\<open>confirmed-commit:1.1\<close> and \<^verbatim>\<open>validate:1.1\<close>; \<^verbatim>\<open>candidate:1.0\<close> gives \<^verbatim>\<open>candidate\<close>. When
  \<^verbatim>\<open>ietf-netconf\<close> is obtained, the function returns 0 and the features enabled in it
  afterwards are those enabled before and those of the capabilities, no other.
\<close>

theorem loader_enables_matching_features:
  "(capability_feature cpblt = Some f \<longleftrightarrow>
      take 35 cpblt = ''urn:ietf:params:netconf:capability:'' \<and>
      (f = ''writable-running'' \<and> take 16 (drop 35 cpblt) = ''writable-running''
       \<or> f = ''candidate'' \<and> take 9 (drop 35 cpblt) = ''candidate''
       \<or> f = ''confirmed-commit'' \<and> drop 35 cpblt = ''confirmed-commit:1.1''
       \<or> f = ''rollback-on-error'' \<and> take 17 (drop 35 cpblt) = ''rollback-on-error''
       \<or> f = ''validate'' \<and> drop 35 cpblt = ''validate:1.1''
       \<or> f = ''startup'' \<and> take 7 (drop 35 cpblt) = ''startup''
       \<or> f = ''url'' \<and> take 3 (drop 35 cpblt) = ''url''
       \<or> f = ''xpath'' \<and> take 5 (drop 35 cpblt) = ''xpath''))
   \<and> capability_feature ''urn:ietf:params:netconf:capability:candidate:1.0'' = Some ''candidate''
   \<and> (load_ietf_netconf E ctx = (Some m, ctx1) \<longrightarrow>
        fst (ctx_check_and_load_ietf_netconf E ctx cpblts) = 0 \<and>
        (\<forall>g. feature_enabled (fst (snd (ctx_check_and_load_ietf_netconf E ctx cpblts))) m g
              \<longleftrightarrow> feature_enabled ctx1 m g \<or> (\<exists>c\<in>set cpblts. capability_feature c = Some g)))"
proof (intro conjI impI allI)
  show "capability_feature ''urn:ietf:params:netconf:capability:candidate:1.0'' = Some ''candidate''"
    by (simp add: capability_feature_def strncmp_eq_def)
next
  assume l: "load_ietf_netconf E ctx = (Some m, ctx1)"
  then show "fst (ctx_check_and_load_ietf_netconf E ctx cpblts) = 0"
    by (simp add: ctx_check_and_load_ietf_netconf_def)
  fix g
  from l fold_enable_features [OF load_ietf_netconf_present [OF l], of cpblts g]
  show "feature_enabled (fst (snd (ctx_check_and_load_ietf_netconf E ctx cpblts))) m g
              \<longleftrightarrow> feature_enabled ctx1 m g \<or> (\<exists>c\<in>set cpblts. capability_feature c = Some g)"
    by (simp add: ctx_check_and_load_ietf_netconf_def)
qed (rule capability_features)

lemma capability_feature_examples:
  "capability_feature ''urn:ietf:params:netconf:base:1.0'' = None"
  "capability_feature ''urn:ietf:params:netconf:capability:candidate:1.0'' = Some ''candidate''"
  "capability_feature ''urn:ietf:params:netconf:capability:validate:1.0'' = None"
  "capability_feature ''urn:ietf:params:netconf:capability:xpath:1.0'' = Some ''xpath''"
  by (simp_all add: capability_feature_def strncmp_eq_def)

lemma load_ietf_netconf_example:
  "load_ietf_netconf loader_env empty_ctx = (Some base_module, empty_ctx\<lparr>ctx_modules := [base_module]\<rparr>)"
  by (simp add: load_ietf_netconf_def ly_ctx_get_module_def ly_ctx_load_module_def lys_parse_path_ctx_def
      loader_env_def example_env_def empty_ctx_def)

theorem loader_enables_matching_features_witness:
  "ctx_check_and_load_ietf_netconf loader_env empty_ctx netconf_cpblts =
     (0, empty_ctx\<lparr>ctx_modules := [base_module\<lparr>mod_features := [''candidate'', ''xpath'']\<rparr>]\<rparr>, [])
   \<and> feature_enabled (fst (snd (ctx_check_and_load_ietf_netconf loader_env empty_ctx netconf_cpblts)))
        base_module ''candidate''
   \<and> \<not> feature_enabled (fst (snd (ctx_check_and_load_ietf_netconf loader_env empty_ctx netconf_cpblts)))
        base_module ''writable-running''
   \<and> \<not> feature_enabled (fst (snd (ctx_check_and_load_ietf_netconf loader_env empty_ctx netconf_cpblts)))
        base_module ''validate''"
proof -
  have none: "\<not> feature_enabled (empty_ctx\<lparr>ctx_modules := [base_module]\<rparr>) base_module g" for g
    by (simp add: feature_enabled_def base_module_def)
  have caps: "(\<exists>c\<in>set netconf_cpblts. capability_feature c = Some g) \<longleftrightarrow> g = ''candidate'' \<or> g = ''xpath''" for g
    by (auto simp: netconf_cpblts_def capability_feature_examples)
  from loader_enables_matching_features [of "''''" "''''" loader_env empty_ctx base_module
      "empty_ctx\<lparr>ctx_modules := [base_module]\<rparr>" netconf_cpblts] load_ietf_netconf_example
  have en: "feature_enabled (fst (snd (ctx_check_and_load_ietf_netconf loader_env empty_ctx netconf_cpblts)))
        base_module g \<longleftrightarrow> g = ''candidate'' \<or> g = ''xpath''" for g
    by (simp add: none caps)
  have run: "ctx_check_and_load_ietf_netconf loader_env empty_ctx netconf_cpblts =
     (0, empty_ctx\<lparr>ctx_modules := [base_module\<lparr>mod_features := [''candidate'', ''xpath'']\<rparr>]\<rparr>, [])"
    by (simp add: ctx_check_and_load_ietf_netconf_def load_ietf_netconf_example netconf_cpblts_def
        capability_feature_examples lys_features_enable_def same_module_def base_module_def)
  from run en [of "''candidate''"] en [of "''writable-running''"] en [of "''validate''"]
  show ?thesis by simp
qed








lemmas loader_eval =
  nc_ctx_check_and_fill_def install_get_schema_def get_schema_support_def strncmp_eq_def
  ly_ctx_get_module_def ctx_check_and_load_ietf_netconf_def load_ietf_netconf_def
  ly_ctx_load_module_def lys_parse_path_ctx_def capability_feature_def lys_features_enable_def
  same_module_def skipped_cpblt_def ctx_check_and_load_model_def cpblt_param_def retry_model_def
  ly_ctx_set_module_clb_def loader_env_def example_env_def example_session_def base_module_def





text \<open>
  C6, at an input where the code departs from it. The peer does not advertise
  \<^verbatim>\<open>ietf-netconf-monitoring\<close>, the context has a callback of the user, and the module
  \<^verbatim>\<open>foo\<close> cannot be loaded: \<^verbatim>\<open>nc_ctx_check_and_fill\<close> returns 1 and leaves the get-schema
  callback installed in place of the user's, since the call that sets the get-schema
  callback back stands outside the test of \<^verbatim>\<open>get_schema_support\<close> and nothing restores
  the old callback, which was never saved.
\<close>

theorem loader_installs_get_schema_clb_unsupported:
  "\<not> get_schema_support (session_cpblts user_clb_session)
   \<and> ctx_module_clb (session_ctx user_clb_session) = Some (User_clb 7)
   \<and> nc_ctx_check_and_fill loader_env user_clb_session =
       (1, user_clb_session
           \<lparr>session_ctx := (session_ctx user_clb_session)
              \<lparr>ctx_module_clb := Some Get_schema_clb, ctx_module_clb_data := Some Session_data\<rparr>,
            logged := [WRN ''Failed to load model %s.'' [Str ''foo''],
                       WRN ''Some models failed to be loaded, any data from these models will be ignored.'' []]\<rparr>)"
  by (simp add: loader_eval user_clb_session_def)

theorem loader_installs_get_schema_clb_unsupported_witness:
  "\<exists>s'. nc_ctx_check_and_fill loader_env user_clb_session = (1, s')
      \<and> ctx_module_clb (session_ctx s') = Some Get_schema_clb
      \<and> ctx_module_clb (session_ctx user_clb_session) = Some (User_clb 7)
      \<and> get_schema_support (session_cpblts user_clb_session) = False"
  using loader_installs_get_schema_clb_unsupported by simp

section \<open>Properties of the get-schema callback\<close>

lemma strchr_first: "c \<notin> set a \<Longrightarrow> strchr (a @ c # rest) c = Some (c # rest)"
  by (induction a) auto

lemma strrchr_none: "c \<notin> set b \<Longrightarrow> strrchr b c = None"
  by (induction b) auto

lemma strrchr_last: "c \<notin> set b \<Longrightarrow> strrchr (a @ c # b) c = Some (c # b)"
  by (induction a) (auto simp: strrchr_none)

lemma strip_data_root_between:
  assumes "CHR ''>'' \<notin> set a" "CHR ''<'' \<notin> set b" "length (a @ CHR ''>'' # mid @ CHR ''<'' # b) < 2 ^ 64"
  shows "strip_data_root (a @ CHR ''>'' # mid @ CHR ''<'' # b) = Inr mid"
proof -
  have 1: "strchr (a @ CHR ''>'' # mid @ CHR ''<'' # b) CHR ''>'' = Some (CHR ''>'' # mid @ CHR ''<'' # b)"
    using assms(1) by (rule strchr_first)
  have 2: "strrchr (a @ CHR ''>'' # mid @ CHR ''<'' # b) CHR ''<'' = Some (CHR ''<'' # b)"
    using strrchr_last [OF assms(2), of "a @ CHR ''>'' # mid"] by simp
  have "int (length (mid @ CHR ''<'' # b)) - int (length (CHR ''<'' # b)) = int (length mid)"
    by simp
  moreover from assms(3) have "int (length mid) < 2 ^ 64" by simp
  ultimately have 3: "nat ((int (length (mid @ CHR ''<'' # b)) - int (length (CHR ''<'' # b))) mod 2 ^ 64)
      = length mid"
    by simp
  show ?thesis
    unfolding strip_data_root_def 1 2 by (simp only: option.case list.sel 3) simp
qed

lemma send_until_sent_stop:
  "fst (nc_send_rpc_getschema E s i v f 0) \<noteq> NC_MSG_WOULDBLOCK \<Longrightarrow>
   send_until_sent E s i v f = Some (nc_send_rpc_getschema E s i v f 0)"
  by (subst send_until_sent.simps) simp

lemma send_until_sent_retry:
  "fst (nc_send_rpc_getschema E s i v f 0) = NC_MSG_WOULDBLOCK \<Longrightarrow>
   send_until_sent E s i v f = send_until_sent E (snd (snd (nc_send_rpc_getschema E s i v f 0))) i v f"
  by (subst send_until_sent.simps) simp

text \<open>The loop returns as soon as one attempt, the \<open>k\<close>-th after \<open>k\<close> blocked ones, does not
  block.\<close>

lemma send_until_sent_returns:
  "fst (nc_send_rpc_getschema E
          (((\<lambda>s. snd (snd (nc_send_rpc_getschema E s i v f 0))) ^^ k) s) i v f 0) \<noteq> NC_MSG_WOULDBLOCK
   \<Longrightarrow> \<exists>y. send_until_sent E s i v f = Some y"
proof (induction k arbitrary: s)
  case 0
  then have "send_until_sent E s i v f = Some (nc_send_rpc_getschema E s i v f 0)"
    by (intro send_until_sent_stop) simp
  then show ?case by blast
next
  case (Suc k)
  show ?case
  proof (cases "fst (nc_send_rpc_getschema E s i v f 0) = NC_MSG_WOULDBLOCK")
    case True
    from Suc.prems have "fst (nc_send_rpc_getschema E
          (((\<lambda>s. snd (snd (nc_send_rpc_getschema E s i v f 0))) ^^ k)
             (snd (snd (nc_send_rpc_getschema E s i v f 0)))) i v f 0) \<noteq> NC_MSG_WOULDBLOCK"
      unfolding funpow_Suc_right o_apply .
    from Suc.IH [OF this] True show ?thesis
      by (simp add: send_until_sent_retry)
  next
    case False
    then have "send_until_sent E s i v f = Some (nc_send_rpc_getschema E s i v f 0)"
      by (rule send_until_sent_stop)
    then show ?thesis by blast
  qed
qed

lemma send_until_sent_final:
  "send_until_sent E s i v f = Some y \<Longrightarrow>
   fst y \<noteq> NC_MSG_WOULDBLOCK \<and> (\<exists>s0. nc_send_rpc_getschema E s0 i v f 0 = y)"
  by (rule send_until_sent.raw_induct
        [where P = "\<lambda>E s i v f y. fst y \<noteq> NC_MSG_WOULDBLOCK \<and> (\<exists>s0. nc_send_rpc_getschema E s0 i v f 0 = y)"])
     (auto split: if_splits)

lemma nc_send_rpc_getschema_sent:
  "nc_send_rpc_getschema E s i v f t = (NC_MSG_RPC, m, s') \<Longrightarrow>
   m = Some (session_msgid s') \<and> sent s' = sent s @ [getschema_tree i v f]"
  by (auto simp: nc_send_rpc_getschema_def nc_send_msg_def Let_def split: if_splits prod.splits)

lemma clb_after_send:
  assumes "send_until_sent E s n revision (Some ''yin'') = Some (msg, Some msgid, s1)"
    and "msg \<noteq> NC_MSG_ERROR"
    and "nc_recv_reply E s1 (NC_RPC_GETSCHEMA n revision (Some ''yin'')) msgid 250 [] = Inr (msg', reply, s2)"
  shows "libyang_module_clb E s n revision =
     Some (if msg' = NC_MSG_WOULDBLOCK
           then Inr (None, s2\<lparr>logged := logged s2 @
                  [ERR ''Session %u: timeout for receiving reply to a <get-schema> expired.''
                     [Num (session_id s2)]]\<rparr>)
           else if msg' = NC_MSG_ERROR
           then Inr (None, s2\<lparr>logged := logged s2 @
                  [ERR ''Session %u: failed to receive a reply to <get-schema>.''
                     [Num (session_id s2)]]\<rparr>)
           else
             (case reply of
                None \<Rightarrow> Inl NullDeref
              | Some (NC_RPL_DATA d) \<Rightarrow>
                  (case lyd_anyxml_value d of
                     None \<Rightarrow> Inl BadCast
                   | Some v \<Rightarrow>
                       (case lyxml_print_mem E v of
                          None \<Rightarrow> Inr (None, s2)
                        | Some anyxml \<Rightarrow>
                            (case strip_data_root anyxml of
                               Inl f \<Rightarrow> Inl f
                             | Inr model_data \<Rightarrow> Inr (Some model_data, s2))))
              | Some _ \<Rightarrow>
                  Inr (None, s2\<lparr>logged := logged s2 @
                    [ERR ''Session %u: unexpected reply type to a <get-schema> RPC.''
                       [Num (session_id s2)]]\<rparr>)))"
  using assms by (simp add: libyang_module_clb_def)

text \<open>
  The outcomes that \<^verbatim>\<open>libyang_module_clb\<close> tests. Let its sending loop end with the message
  type \<open>msg\<close>. If the RPC could not be sent (\<^verbatim>\<open>NC_MSG_ERROR\<close>) the callback returns NULL. If
  it was sent, the tree written last is \<^verbatim>\<open>get-schema\<close> with the leaves \<^verbatim>\<open>identifier\<close>,
  \<^verbatim>\<open>version\<close> (when a revision is given) and \<^verbatim>\<open>format\<close> with the value \<^verbatim>\<open>yin\<close>, and the reply
  is awaited by \<^verbatim>\<open>nc_recv_reply\<close> with the message-id of the RPC and a timeout of 250: on a
  timeout, an error or a reply that is not data the callback returns NULL; on a data reply
  whose anyxml value prints as \<open>a @ ''>'' @ mid @ ''<'' @ b\<close>, with no \<^verbatim>\<open>>\<close> in \<open>a\<close> and no
  \<^verbatim>\<open><\<close> in \<open>b\<close>, it returns exactly \<open>mid\<close>.
\<close>

lemma clb_tested_outcomes:
  assumes "send_until_sent E s n revision (Some ''yin'') = Some (msg, sent_msgid, s1)"
  shows "(msg = NC_MSG_ERROR \<longrightarrow> (\<exists>s'. libyang_module_clb E s n revision = Some (Inr (None, s'))))
     \<and> (msg = NC_MSG_RPC \<longrightarrow>
          sent_msgid = Some (session_msgid s1) \<and> sent s1 \<noteq> []
          \<and> last (sent s1) =
              Lyd_node (Some ''get-schema'')
                (Lyd_node (Some ''identifier'') [] (Some n) None
                 # (case revision of None \<Rightarrow> [] | Some v \<Rightarrow> [Lyd_node (Some ''version'') [] (Some v) None])
                 @ [Lyd_node (Some ''format'') [] (Some ''yin'') None])
                None None
          \<and> (\<forall>msg' reply s2.
                nc_recv_reply E s1 (NC_RPC_GETSCHEMA n revision (Some ''yin'')) (session_msgid s1) 250 [] =
                  Inr (msg', reply, s2) \<longrightarrow>
                (msg' = NC_MSG_WOULDBLOCK \<or> msg' = NC_MSG_ERROR
                   \<or> msg' = NC_MSG_REPLY \<and> (reply = Some NC_RPL_OK \<or> (\<exists>errs. reply = Some (NC_RPL_ERROR errs)))
                 \<longrightarrow> (\<exists>s'. libyang_module_clb E s n revision = Some (Inr (None, s'))))
                \<and> (\<forall>d v a mid b.
                      msg' = NC_MSG_REPLY \<and> reply = Some (NC_RPL_DATA d) \<and> lyd_anyxml_value d = Some v
                      \<and> lyxml_print_mem E v = Some (a @ CHR ''>'' # mid @ CHR ''<'' # b)
                      \<and> CHR ''>'' \<notin> set a \<and> CHR ''<'' \<notin> set b
                      \<and> length (a @ CHR ''>'' # mid @ CHR ''<'' # b) < 2 ^ 64
                    \<longrightarrow> libyang_module_clb E s n revision = Some (Inr (Some mid, s2)))))"
proof (intro conjI impI allI)
  assume "msg = NC_MSG_ERROR"
  with assms show "\<exists>s'. libyang_module_clb E s n revision = Some (Inr (None, s'))"
    by (simp add: libyang_module_clb_def)
next
  assume rpc: "msg = NC_MSG_RPC"
  from send_until_sent_final [OF assms] obtain s0 where
    "nc_send_rpc_getschema E s0 n revision (Some ''yin'') 0 = (msg, sent_msgid, s1)" by auto
  with rpc nc_send_rpc_getschema_sent [of E s0 n revision "Some ''yin''" 0 sent_msgid s1]
  have m: "sent_msgid = Some (session_msgid s1)"
    and sent: "sent s1 = sent s0 @ [getschema_tree n revision (Some ''yin'')]"
    by simp_all
  show "sent_msgid = Some (session_msgid s1)" by (rule m)
  show "sent s1 \<noteq> []" using sent by simp
  show "last (sent s1) =
      Lyd_node (Some ''get-schema'')
        (Lyd_node (Some ''identifier'') [] (Some n) None
         # (case revision of None \<Rightarrow> [] | Some v \<Rightarrow> [Lyd_node (Some ''version'') [] (Some v) None])
         @ [Lyd_node (Some ''format'') [] (Some ''yin'') None])
        None None"
    using sent by (simp add: getschema_tree_def lyd_leaf_def split: option.split)
  fix msg' reply s2
  assume recv: "nc_recv_reply E s1 (NC_RPC_GETSCHEMA n revision (Some ''yin'')) (session_msgid s1) 250 [] =
            Inr (msg', reply, s2)"
  from assms m rpc have send: "send_until_sent E s n revision (Some ''yin'') = Some (msg, Some (session_msgid s1), s1)"
    and ne: "msg \<noteq> NC_MSG_ERROR" by simp_all
  note clb = clb_after_send [OF send ne recv]
  {
    assume "msg' = NC_MSG_WOULDBLOCK \<or> msg' = NC_MSG_ERROR
           \<or> msg' = NC_MSG_REPLY \<and> (reply = Some NC_RPL_OK \<or> (\<exists>errs. reply = Some (NC_RPL_ERROR errs)))"
    then show "\<exists>s'. libyang_module_clb E s n revision = Some (Inr (None, s'))"
      unfolding clb by auto
  next
    fix d v a mid b
    assume a: "msg' = NC_MSG_REPLY \<and> reply = Some (NC_RPL_DATA d) \<and> lyd_anyxml_value d = Some v
              \<and> lyxml_print_mem E v = Some (a @ CHR ''>'' # mid @ CHR ''<'' # b)
              \<and> CHR ''>'' \<notin> set a \<and> CHR ''<'' \<notin> set b
              \<and> length (a @ CHR ''>'' # mid @ CHR ''<'' # b) < 2 ^ 64"
    then have "strip_data_root (a @ CHR ''>'' # mid @ CHR ''<'' # b) = Inr mid"
      by (intro strip_data_root_between) simp_all
    with a show "libyang_module_clb E s n revision = Some (Inr (Some mid, s2))"
      unfolding clb by simp
  }
qed

lemmas send_eval = nc_send_rpc_getschema_def nc_send_msg_def ly_ctx_get_module_def
  schema_env_def schema_session_def example_env_def example_session_def

lemma schema_send:
  "send_until_sent schema_env (schema_session\<lparr>wire := w\<rparr>) ''acme'' (Some ''2021-05-01'') (Some ''yin'') =
     Some (NC_MSG_RPC, Some 1,
           schema_session\<lparr>wire := w, lock_calls := 3, session_msgid := 1,
             sent := [getschema_tree ''acme'' (Some ''2021-05-01'') (Some ''yin'')]\<rparr>)"
proof -
  let ?send = "\<lambda>s. nc_send_rpc_getschema schema_env s ''acme'' (Some ''2021-05-01'') (Some ''yin'') 0"
  have 1: "?send (schema_session\<lparr>wire := w\<rparr>) =
      (NC_MSG_WOULDBLOCK, None, schema_session\<lparr>wire := w, lock_calls := 1\<rparr>)"
    by (simp add: send_eval)
  have 2: "?send (schema_session\<lparr>wire := w, lock_calls := Suc 0\<rparr>) =
      (NC_MSG_WOULDBLOCK, None, schema_session\<lparr>wire := w, lock_calls := 2\<rparr>)"
    by (simp add: send_eval)
  have 3: "?send (schema_session\<lparr>wire := w, lock_calls := 2\<rparr>) =
      (NC_MSG_RPC, Some 1,
           schema_session\<lparr>wire := w, lock_calls := 3, session_msgid := 1,
             sent := [getschema_tree ''acme'' (Some ''2021-05-01'') (Some ''yin'')]\<rparr>)"
    by (simp add: send_eval)
  have "send_until_sent schema_env (schema_session\<lparr>wire := w\<rparr>) ''acme'' (Some ''2021-05-01'') (Some ''yin'')
      = send_until_sent schema_env (schema_session\<lparr>wire := w, lock_calls := Suc 0\<rparr>)
          ''acme'' (Some ''2021-05-01'') (Some ''yin'')"
    by (subst send_until_sent_retry) (simp_all add: 1)
  also have "\<dots> = send_until_sent schema_env (schema_session\<lparr>wire := w, lock_calls := 2\<rparr>)
          ''acme'' (Some ''2021-05-01'') (Some ''yin'')"
    by (subst send_until_sent_retry) (simp_all add: 2)
  also have "\<dots> = Some (?send (schema_session\<lparr>wire := w, lock_calls := 2\<rparr>))"
    by (rule send_until_sent_stop) (simp add: 3)
  finally show ?thesis by (simp only: 3)
qed

lemma clb_tested_outcomes_example:
  "libyang_module_clb schema_env (schema_session\<lparr>wire := [Reply_in schema_reply]\<rparr>)
      ''acme'' (Some ''2021-05-01'') =
     Some (Inr (Some ''<module>acme</module>'',
                schema_session\<lparr>wire := [], lock_calls := 4, session_msgid := 1,
                  sent := [getschema_tree ''acme'' (Some ''2021-05-01'') (Some ''yin'')],
                  freed := [schema_reply]\<rparr>))
   \<and> (\<exists>s'. libyang_module_clb schema_env schema_session ''acme'' (Some ''2021-05-01'') =
          Some (Inr (None, s')))"
proof -
  let ?rpc = "NC_RPC_GETSCHEMA ''acme'' (Some ''2021-05-01'') (Some ''yin'')"
  let ?s1 = "\<lambda>w. schema_session\<lparr>wire := w, lock_calls := 3, session_msgid := 1,
             sent := [getschema_tree ''acme'' (Some ''2021-05-01'') (Some ''yin'')]\<rparr>"
  let ?d = "Lyd_node (Some ''data'') [] None
     (Some (Elem ''data'' (Some ''urn:ietf:params:xml:ns:yang:ietf-netconf-monitoring'')
        (Some ''<module>acme</module>'') [] []))"
  let ?s2 = "schema_session\<lparr>wire := [], lock_calls := 4, session_msgid := 1,
                  sent := [getschema_tree ''acme'' (Some ''2021-05-01'') (Some ''yin'')],
                  freed := [schema_reply]\<rparr>"
  have recv: "nc_recv_reply schema_env (?s1 [Reply_in schema_reply]) ?rpc 1 250 [] =
      Inr (NC_MSG_REPLY, Some (NC_RPL_DATA ?d), ?s2)"
    by (simp add: nc_recv_reply_def get_msg_def get_msg_wire_def nc_read_msg_poll_def
        parse_reply_def parse_reply_data_def LYD_OPT_TYPEMASK_def schema_reply_def NC_NS_BASE_def
        schema_env_def schema_session_def example_env_def example_session_def)
  have payload: "lyxml_print_mem schema_env
       (Elem ''data'' (Some ''urn:ietf:params:xml:ns:yang:ietf-netconf-monitoring'')
        (Some ''<module>acme</module>'') [] []) =
      Some (''<data'' @ CHR ''>'' # ''<module>acme</module>'' @ CHR ''<'' # ''/data>'')"
    by (simp add: schema_env_def)
  note rpc_case = clb_tested_outcomes [OF schema_send [of "[Reply_in schema_reply]"], THEN conjunct2,
      rule_format, OF refl]
  have recv': "nc_recv_reply schema_env (?s1 [Reply_in schema_reply]) ?rpc
      (session_msgid (?s1 [Reply_in schema_reply])) 250 [] =
      Inr (NC_MSG_REPLY, Some (NC_RPL_DATA ?d), ?s2)"
    using recv by simp
  note data_case = rpc_case [THEN conjunct2, THEN conjunct2, THEN conjunct2, rule_format, OF recv',
      THEN conjunct2, rule_format, of ?d _ "''<data''" "''<module>acme</module>''" "''/data>''"]
  from data_case payload
  have 1: "libyang_module_clb schema_env (schema_session\<lparr>wire := [Reply_in schema_reply]\<rparr>)
                    ''acme'' (Some ''2021-05-01'') = Some (Inr (Some ''<module>acme</module>'', ?s2))"
    by simp
  have recv0: "nc_recv_reply schema_env (?s1 []) ?rpc 1 250 [] =
      Inr (NC_MSG_WOULDBLOCK, None, schema_session\<lparr>wire := [], lock_calls := 4, session_msgid := 1,
             sent := [getschema_tree ''acme'' (Some ''2021-05-01'') (Some ''yin'')]\<rparr>)"
    by (simp add: nc_recv_reply_def get_msg_def get_msg_wire_def nc_read_msg_poll_def
        LYD_OPT_TYPEMASK_def schema_env_def schema_session_def example_env_def example_session_def)
  have w0: "schema_session\<lparr>wire := []\<rparr> = schema_session"
    by (simp add: schema_session_def example_session_def)
  have recv0': "nc_recv_reply schema_env (?s1 []) ?rpc (session_msgid (?s1 [])) 250 [] =
      Inr (NC_MSG_WOULDBLOCK, None, schema_session\<lparr>wire := [], lock_calls := 4, session_msgid := 1,
             sent := [getschema_tree ''acme'' (Some ''2021-05-01'') (Some ''yin'')]\<rparr>)"
    using recv0 by simp
  note timeout_case = clb_tested_outcomes [OF schema_send [of "[]"], THEN conjunct2, rule_format, OF refl,
      THEN conjunct2, THEN conjunct2, THEN conjunct2, rule_format, OF recv0', THEN conjunct1, rule_format]
  from timeout_case
  have 2: "\<exists>s'. libyang_module_clb schema_env (schema_session\<lparr>wire := []\<rparr>) ''acme'' (Some ''2021-05-01'') =
          Some (Inr (None, s'))"
    by simp
  from 1 2 w0 show ?thesis by simp
qed

text \<open>
  \<^verbatim>\<open>nc_recv_reply\<close> sets \<^verbatim>\<open>*reply\<close> only when it returns \<^verbatim>\<open>NC_MSG_REPLY\<close>. So whenever the RPC
  was sent and a notification is read in place of the reply, the callback, which tests for
  \<^verbatim>\<open>NC_MSG_WOULDBLOCK\<close> and \<^verbatim>\<open>NC_MSG_ERROR\<close> only, reads \<^verbatim>\<open>reply->type\<close> of the NULL reply.
\<close>

lemma nc_recv_reply_no_reply:
  "nc_recv_reply E s rpc msgid t opts = Inr (msg', reply, s2) \<Longrightarrow> msg' \<noteq> NC_MSG_REPLY \<Longrightarrow> reply = None"
  by (auto simp: nc_recv_reply_def Let_def split: if_splits sum.splits prod.splits option.splits)

lemma clb_notification_faults:
  assumes "send_until_sent E s n revision (Some ''yin'') = Some (NC_MSG_RPC, sent_msgid, s1)"
    and "nc_recv_reply E s1 (NC_RPC_GETSCHEMA n revision (Some ''yin'')) (session_msgid s1) 250 [] =
           Inr (NC_MSG_NOTIF, reply, s2)"
  shows "libyang_module_clb E s n revision = Some (Inl NullDeref)"
proof -
  from send_until_sent_final [OF assms(1)] obtain s0 where
    "nc_send_rpc_getschema E s0 n revision (Some ''yin'') 0 = (NC_MSG_RPC, sent_msgid, s1)" by auto
  from nc_send_rpc_getschema_sent [OF this] have m: "sent_msgid = Some (session_msgid s1)" by simp
  from nc_recv_reply_no_reply [OF assms(2)] have r: "reply = None" by simp
  from assms(1) m have send: "send_until_sent E s n revision (Some ''yin'') =
      Some (NC_MSG_RPC, Some (session_msgid s1), s1)" by simp
  from clb_after_send [OF send _ assms(2)] r show ?thesis by simp
qed

text \<open>
  C7, at an input where the code departs from it. The session is running, the context has
  \<^verbatim>\<open>ietf-netconf-monitoring\<close>, and the peer sends a notification before its reply to the
  get-schema RPC. The callback sends \<^verbatim>\<open>get-schema\<close> for the module with the format \<^verbatim>\<open>yin\<close>
  (after two attempts that found the session locked) and calls \<^verbatim>\<open>nc_recv_reply\<close> with the
  timeout 250; that call parks the notification and returns \<^verbatim>\<open>NC_MSG_NOTIF\<close> with \<^verbatim>\<open>reply\<close>
  NULL, the reply still unread on the transport. No reply was obtained, yet the callback
  does not return NULL: it tests for \<^verbatim>\<open>NC_MSG_WOULDBLOCK\<close> and \<^verbatim>\<open>NC_MSG_ERROR\<close> only and goes
  on to read \<^verbatim>\<open>reply->type\<close> of the NULL reply.
\<close>

theorem notification_instead_of_reply:
  "send_until_sent schema_env (schema_session\<lparr>wire := [Notif_in example_notif, Reply_in schema_reply]\<rparr>)
      ''acme'' (Some ''2021-05-01'') (Some ''yin'') =
     Some (NC_MSG_RPC, Some 1,
           schema_session\<lparr>wire := [Notif_in example_notif, Reply_in schema_reply], lock_calls := 3,
             session_msgid := 1,
             sent := [Lyd_node (Some ''get-schema'')
                        [Lyd_node (Some ''identifier'') [] (Some ''acme'') None,
                         Lyd_node (Some ''version'') [] (Some ''2021-05-01'') None,
                         Lyd_node (Some ''format'') [] (Some ''yin'') None] None None]\<rparr>)
   \<and> nc_recv_reply schema_env
        (schema_session\<lparr>wire := [Notif_in example_notif, Reply_in schema_reply], lock_calls := 3,
             session_msgid := 1,
             sent := [Lyd_node (Some ''get-schema'')
                        [Lyd_node (Some ''identifier'') [] (Some ''acme'') None,
                         Lyd_node (Some ''version'') [] (Some ''2021-05-01'') None,
                         Lyd_node (Some ''format'') [] (Some ''yin'') None] None None]\<rparr>)
        (NC_RPC_GETSCHEMA ''acme'' (Some ''2021-05-01'') (Some ''yin'')) 1 250 [] =
       Inr (NC_MSG_NOTIF, None,
            schema_session\<lparr>wire := [Reply_in schema_reply], lock_calls := 4, session_msgid := 1,
              sent := [Lyd_node (Some ''get-schema'')
                        [Lyd_node (Some ''identifier'') [] (Some ''acme'') None,
                         Lyd_node (Some ''version'') [] (Some ''2021-05-01'') None,
                         Lyd_node (Some ''format'') [] (Some ''yin'') None] None None],
              notifs := [example_notif]\<rparr>)
   \<and> libyang_module_clb schema_env
        (schema_session\<lparr>wire := [Notif_in example_notif, Reply_in schema_reply]\<rparr>)
        ''acme'' (Some ''2021-05-01'') = Some (Inl NullDeref)"
proof -
  let ?w = "[Notif_in example_notif, Reply_in schema_reply]"
  let ?tree = "Lyd_node (Some ''get-schema'')
                        [Lyd_node (Some ''identifier'') [] (Some ''acme'') None,
                         Lyd_node (Some ''version'') [] (Some ''2021-05-01'') None,
                         Lyd_node (Some ''format'') [] (Some ''yin'') None] None None"
  have tree: "getschema_tree ''acme'' (Some ''2021-05-01'') (Some ''yin'') = ?tree"
    by (simp add: getschema_tree_def lyd_leaf_def)
  have send: "send_until_sent schema_env (schema_session\<lparr>wire := ?w\<rparr>)
      ''acme'' (Some ''2021-05-01'') (Some ''yin'') =
     Some (NC_MSG_RPC, Some 1,
           schema_session\<lparr>wire := ?w, lock_calls := 3, session_msgid := 1, sent := [?tree]\<rparr>)"
    using schema_send [of ?w] by (simp only: tree)
  have recv: "nc_recv_reply schema_env
      (schema_session\<lparr>wire := ?w, lock_calls := 3, session_msgid := 1, sent := [?tree]\<rparr>)
      (NC_RPC_GETSCHEMA ''acme'' (Some ''2021-05-01'') (Some ''yin'')) 1 250 [] =
      Inr (NC_MSG_NOTIF, None,
           schema_session\<lparr>wire := [Reply_in schema_reply], lock_calls := 4, session_msgid := 1,
             sent := [?tree], notifs := [example_notif]\<rparr>)"
    by (simp add: nc_recv_reply_def get_msg_def get_msg_wire_def nc_read_msg_poll_def
        LYD_OPT_TYPEMASK_def schema_env_def schema_session_def example_env_def example_session_def)
  have clb: "libyang_module_clb schema_env (schema_session\<lparr>wire := ?w\<rparr>)
        ''acme'' (Some ''2021-05-01'') = Some (Inl NullDeref)"
    using clb_after_send [OF send _ recv] by simp
  from send recv clb show ?thesis by (simp only: simp_thms)
qed

theorem notification_instead_of_reply_witness:
  "\<exists>s1 s2 f. send_until_sent schema_env
        (schema_session\<lparr>wire := [Notif_in example_notif, Reply_in schema_reply]\<rparr>)
        ''acme'' (Some ''2021-05-01'') (Some ''yin'') = Some (NC_MSG_RPC, Some 1, s1)
     \<and> nc_recv_reply schema_env s1 (NC_RPC_GETSCHEMA ''acme'' (Some ''2021-05-01'') (Some ''yin'')) 1 250 [] =
         Inr (NC_MSG_NOTIF, None, s2)
     \<and> wire s2 = [Reply_in schema_reply]
     \<and> libyang_module_clb schema_env
         (schema_session\<lparr>wire := [Notif_in example_notif, Reply_in schema_reply]\<rparr>)
         ''acme'' (Some ''2021-05-01'') = Some (Inl f)"
  using notification_instead_of_reply by (simp add: schema_session_def example_session_def)

text \<open>A payload that is a single tag has nothing in between: the difference of the lengths
  wraps around in \<^verbatim>\<open>size_t\<close> and the copy stops at the end of the string.\<close>

lemma strip_data_root_single_tag:
  "CHR ''<'' \<notin> set t \<Longrightarrow> CHR ''>'' \<notin> set t \<Longrightarrow> strip_data_root (CHR ''<'' # t @ ''>'') = Inr []"
  using strchr_first [of "CHR ''>''" "CHR ''<'' # t" "[]"] strrchr_none [of "CHR ''<''" "t @ ''>''"]
  by (simp add: strip_data_root_def)

end
